theory Spec2Isabelle
  imports Main
begin

section \<open>Values, exceptions and results\<close>

text \<open>
  The catalog records are decoded JSON: strings, numbers, booleans, lists and
  dictionaries (association lists in key order).  \<open>NA\<close> is the absent value: Python's
  \<open>None\<close> and the missing-value markers of the dataframe library, which every operation
  used by the catalog code treats alike.  \<open>Datetime\<close> is a parsed timestamp, given by
  its components.

  The type \<open>'n\<close> of the numbers is a parameter of the values: neither the helpers of the
  module nor the frame operations they call compute with a number, and what is proved of
  exceptions, labels and cells that are no numbers holds whatever the numbers are.
  Where a frame is built from Python values (\<open>pd.DataFrame(self)\<close>, \<open>assign\<close>) the
  numbers do matter: the dataframe library keeps an integer column that has a missing
  cell as 64-bit floats, which gives back the integers from \<open>-2\<^sup>5\<^sup>3\<close> to \<open>2\<^sup>5\<^sup>3\<close> and
  rounds larger ones.  \<open>safe_int\<close> is the type of the integers a frame gives back as they
  are, and what is proved of the cells of frames built from records is proved for
  records whose numbers are of this type.
\<close>

typedef safe_int = "{n :: int. - (2 ^ 53) \<le> n \<and> n \<le> 2 ^ 53}"
  by (rule exI[of _ 0]) simp

datatype 'n val =
    NA
  | Str string
  | Num 'n
  | Bool bool
  | Lst "'n val list"
  | Dict "(string \<times> 'n val) list"
  | Datetime "nat list"

text \<open>
  Exception classes.  \<open>OutsideModel\<close> marks the one situation the frame model does not
  follow: label access on a frame in which that label is repeated.
\<close>

datatype exn =
    KeyError
  | TypeError
  | ValueError
  | AttributeError
  | IndexError
  | OtherError
  | OutsideModel

definition bnd :: "'e + 'a \<Rightarrow> ('a \<Rightarrow> 'e + 'b) \<Rightarrow> 'e + 'b" where
  "bnd m f = (case m of Inl e \<Rightarrow> Inl e | Inr x \<Rightarrow> f x)"

text \<open>\<open>list(map(f, xs))\<close> for an \<open>f\<close> that may raise: the first exception ends the call.\<close>

fun map_exn :: "('a \<Rightarrow> exn + 'b) \<Rightarrow> 'a list \<Rightarrow> exn + 'b list" where
  "map_exn f [] = Inr []"
| "map_exn f (x # xs) = bnd (f x) (\<lambda>y. bnd (map_exn f xs) (\<lambda>ys. Inr (y # ys)))"

text \<open>
  \<open>row[key]\<close> with a string key: a dictionary looks the key up and raises \<open>KeyError\<close>
  when it is missing; every other value raises \<open>TypeError\<close> (not subscriptable, or
  indices must be integers).
\<close>

fun subscript :: "'n val \<Rightarrow> string \<Rightarrow> exn + 'n val" where
  "subscript (Dict kvs) k = (case map_of kvs k of Some v \<Rightarrow> Inr v | None \<Rightarrow> Inl KeyError)"
| "subscript v k = Inl TypeError"

section \<open>The helpers of \<open>_catalogs.py\<close>\<close>

text \<open>
  \<open>_convert_utc\<close>.  The ISO-8601 parser \<open>isoparse\<close> is a library function; it is a
  parameter here, returning the parsed value or the exception it raises.
\<close>

type_synonym 'n parser = "'n val \<Rightarrow> exn + 'n val"

definition convert_utc :: "'n parser \<Rightarrow> 'n val \<Rightarrow> exn + 'n val" where
  "convert_utc isoparse x =
     (case isoparse x of
        Inr t \<Rightarrow> Inr t
      | Inl TypeError \<Rightarrow> Inr NA
      | Inl e \<Rightarrow> Inl e)"

text \<open>\<open>_expand_df\<close> and its inner function \<open>_assign_value\<close>.\<close>

definition assign_value :: "string \<Rightarrow> 'n val \<Rightarrow> exn + 'n val" where
  "assign_value key row =
     (case subscript row key of
        Inr v \<Rightarrow> Inr v
      | Inl KeyError \<Rightarrow> Inr NA
      | Inl TypeError \<Rightarrow> Inr NA
      | Inl e \<Rightarrow> Inl e)"

definition expand_df :: "string \<Rightarrow> 'n val list \<Rightarrow> exn + 'n val list" where
  "expand_df key iterable = map_exn (assign_value key) iterable"

section \<open>Dataframes\<close>

text \<open>
  A dataframe of the library is modelled column by column: the row labels (\<open>index\<close>)
  and the columns in order, each a label with one cell per row.  The operations below
  are the library calls the catalog classes make, written from the library's documented
  behaviour on such frames.
\<close>

record 'n dataframe =
  index :: "nat list"
  cols :: "(string \<times> 'n val list) list"

definition columns :: "'n dataframe \<Rightarrow> string list" where
  "columns df = map fst (cols df)"

text \<open>Keeps the first occurrence of every element, in order.\<close>

primrec uniq :: "'a list \<Rightarrow> 'a list" where
  "uniq [] = []"
| "uniq (x # xs) = x # filter (\<lambda>y. y \<noteq> x) (uniq xs)"

definition field :: "(string \<times> 'n val) list \<Rightarrow> string \<Rightarrow> 'n val" where
  "field r c = (case map_of r c of Some v \<Rightarrow> v | None \<Rightarrow> NA)"

text \<open>
  \<open>pd.DataFrame(self)\<close> for a list of dictionaries: one row per dictionary, labelled
  \<open>0, 1, ...\<close>; the columns are the keys in order of first appearance; a key a record
  lacks gives an absent cell.  The other cells are the records' values, which for
  numbers is what the library does at the type \<open>safe_int\<close>.
\<close>

definition DataFrame :: "(string \<times> 'n val) list list \<Rightarrow> 'n dataframe" where
  "DataFrame data =
     \<lparr> index = [0..<length data],
       cols = map (\<lambda>c. (c, map (\<lambda>r. field r c) data)) (uniq (concat (map (map fst) data))) \<rparr>"

text \<open>
  \<open>df[c]\<close> (and \<open>df.c\<close>): a missing label, the column, or, when the label is repeated,
  a frame of the columns carrying it.
\<close>

datatype 'n lookup = Missing | Series "'n val list" | SubFrame

definition getitem :: "'n dataframe \<Rightarrow> string \<Rightarrow> 'n lookup" where
  "getitem df c =
     (case filter (\<lambda>p. fst p = c) (cols df) of
        [] \<Rightarrow> Missing
      | [p] \<Rightarrow> Series (snd p)
      | _ \<Rightarrow> SubFrame)"

text \<open>
  \<open>df[c] = values\<close>, also the effect of \<open>assign(c=values)\<close>: an existing column is
  replaced where it stands, a new one is appended.
\<close>

definition set_column :: "string \<Rightarrow> 'n val list \<Rightarrow> (string \<times> 'n val list) list \<Rightarrow> (string \<times> 'n val list) list" where
  "set_column c vs cs =
     (if c \<in> set (map fst cs) then map (\<lambda>p. (fst p, if fst p = c then vs else snd p)) cs
      else cs @ [(c, vs)])"

definition setitem :: "'n dataframe \<Rightarrow> string \<Rightarrow> 'n val list \<Rightarrow> 'n dataframe" where
  "setitem df c vs = df\<lparr>cols := set_column c vs (cols df)\<rparr>"

definition assign :: "'n dataframe \<Rightarrow> string \<Rightarrow> 'n val list \<Rightarrow> exn + 'n dataframe" where
  "assign df c vs =
     (if length vs \<noteq> length (index df) then Inl ValueError else Inr (setitem df c vs))"

text \<open>
  \<open>explode(column)\<close>.  A list cell becomes one row per element, an empty list one row
  with an absent cell, a scalar stays one row; a dictionary counts as list-like and
  gives its keys.  The other cells of the row, and its label, are repeated.  The call
  raises \<open>ValueError\<close> on repeated column labels and \<open>KeyError\<close> on a missing one.
\<close>

definition explode_cell :: "'n val \<Rightarrow> 'n val list" where
  "explode_cell v =
     (case v of
        Lst xs \<Rightarrow> (if xs = [] then [NA] else xs)
      | Dict kvs \<Rightarrow> (if kvs = [] then [NA] else map (\<lambda>p. Str (fst p)) kvs)
      | _ \<Rightarrow> [v])"

definition repeat :: "nat list \<Rightarrow> 'a list \<Rightarrow> 'a list" where
  "repeat counts xs = concat (map2 replicate counts xs)"

definition explode :: "'n dataframe \<Rightarrow> string \<Rightarrow> exn + 'n dataframe" where
  "explode df column =
     (if \<not> distinct (columns df) then Inl ValueError
      else case getitem df column of
        Series vs \<Rightarrow>
          (let counts = map (\<lambda>v. length (explode_cell v)) vs in
           Inr \<lparr> index = repeat counts (index df),
                 cols = map (\<lambda>p. (fst p, if fst p = column then concat (map explode_cell (snd p))
                                           else repeat counts (snd p))) (cols df) \<rparr>)
      | _ \<Rightarrow> Inl KeyError)"

text \<open>\<open>drop(labels, axis=1)\<close>: \<open>KeyError\<close> when a label is not a column.\<close>

definition drop_df :: "'n dataframe \<Rightarrow> string list \<Rightarrow> exn + 'n dataframe" where
  "drop_df df labels =
     (if \<exists>l \<in> set labels. l \<notin> set (columns df) then Inl KeyError
      else Inr (df\<lparr>cols := filter (\<lambda>p. fst p \<notin> set labels) (cols df)\<rparr>))"

text \<open>\<open>reset_index(drop=True)\<close>: the rows are labelled \<open>0, 1, ...\<close> again.\<close>

definition reset_index :: "'n dataframe \<Rightarrow> 'n dataframe" where
  "reset_index df = df\<lparr>index := [0..<length (index df)]\<rparr>"

text \<open>\<open>rename({old: new}, axis=1)\<close>; a label that is not a column is left alone.\<close>

definition rename :: "'n dataframe \<Rightarrow> string \<Rightarrow> string \<Rightarrow> 'n dataframe" where
  "rename df old new = df\<lparr>cols := map (\<lambda>p. (if fst p = old then new else fst p, snd p)) (cols df)\<rparr>"

text \<open>\<open>fillna({c: v})\<close>: the absent cells of column \<open>c\<close> become \<open>v\<close>.\<close>

definition fillna :: "'n dataframe \<Rightarrow> string \<Rightarrow> 'n val \<Rightarrow> 'n dataframe" where
  "fillna df c v =
     df\<lparr>cols := map (\<lambda>p. (fst p, if fst p = c then map (\<lambda>x. if x = NA then v else x) (snd p)
                                 else snd p)) (cols df)\<rparr>"

text \<open>
  \<open>convert_dtypes()\<close> chooses a nullable column type for every column; the cells keep
  their values.
\<close>

definition convert_dtypes :: "'n dataframe \<Rightarrow> 'n dataframe" where
  "convert_dtypes df = df"

section \<open>\<open>convert_catalog_dtypes\<close>\<close>

definition endswith :: "string \<Rightarrow> string \<Rightarrow> bool" where
  "endswith c s = (length s \<le> length c \<and> drop (length c - length s) c = s)"

definition time_like :: "string \<Rightarrow> bool" where
  "time_like c = (endswith c ''_time'' \<or> c = ''time'')"

text \<open>
  The loop \<open>for col in datetime_cols: df[col] = df[col].apply(_convert_utc)\<close>.
  \<open>apply\<close> calls the function on the cells in order and the first exception ends it.
\<close>

fun coerce_loop :: "'n parser \<Rightarrow> string list \<Rightarrow> 'n dataframe \<Rightarrow> exn + 'n dataframe" where
  "coerce_loop isoparse [] df = Inr df"
| "coerce_loop isoparse (col # rest) df =
     (case getitem df col of
        Series xs \<Rightarrow>
          bnd (map_exn (convert_utc isoparse) xs)
            (\<lambda>ys. coerce_loop isoparse rest (setitem df col ys))
      | Missing \<Rightarrow> Inl KeyError
      | SubFrame \<Rightarrow> Inl OutsideModel)"

definition convert_catalog_dtypes :: "'n parser \<Rightarrow> 'n dataframe \<Rightarrow> exn + 'n dataframe" where
  "convert_catalog_dtypes isoparse df0 =
     (let df = convert_dtypes df0;
          datetime_cols = filter time_like (columns df)
      in coerce_loop isoparse datetime_cols df)"

section \<open>The catalog classes\<close>

text \<open>
  A catalog data object is a list of records (dictionaries).  The only exception the
  module raises itself is the \<open>ValueError\<close> of the \<open>secondary_level\<close> check; every
  other one comes out of a library call or a built-in operation.
\<close>

type_synonym 'n records = "(string \<times> 'n val) list list"

datatype error = SecondaryLevelError string | Raised exn

definition lift :: "exn + 'a \<Rightarrow> error + 'a" where
  "lift m = (case m of Inl e \<Rightarrow> Inl (Raised e) | Inr x \<Rightarrow> Inr x)"

text \<open>The attribute access \<open>df.c\<close> for a column.\<close>

definition attr_column :: "'n dataframe \<Rightarrow> string \<Rightarrow> exn + 'n val list" where
  "attr_column df c =
     (case getitem df c of
        Series vs \<Rightarrow> Inr vs
      | Missing \<Rightarrow> Inl AttributeError
      | SubFrame \<Rightarrow> Inl OutsideModel)"

text \<open>The subscript \<open>df[c]\<close> for a column.\<close>

definition item_column :: "'n dataframe \<Rightarrow> string \<Rightarrow> exn + 'n val list" where
  "item_column df c =
     (case getitem df c of
        Series vs \<Rightarrow> Inr vs
      | Missing \<Rightarrow> Inl KeyError
      | SubFrame \<Rightarrow> Inl OutsideModel)"

text \<open>
  The step \<open>.assign(name=lambda df: _expand_df(key=key, iterable=df.src))\<close>, which
  every class repeats.
\<close>

definition assign_expand :: "'n dataframe \<Rightarrow> string \<Rightarrow> string \<Rightarrow> string \<Rightarrow> exn + 'n dataframe" where
  "assign_expand df name key src =
     bnd (attr_column df src) (\<lambda>iterable.
     bnd (expand_df key iterable) (\<lambda>vs.
     assign df name vs))"

subsection \<open>The classes without arguments\<close>

text \<open>
  \<open>CatalogIndexesData\<close> and \<open>CatalogMarketCandlesData\<close> apply the same chain of calls
  to \<open>pd.DataFrame(self)\<close>.
\<close>

definition frequencies_chain :: "'n dataframe \<Rightarrow> exn + 'n dataframe" where
  "frequencies_chain df =
     bnd (explode df ''frequencies'') (\<lambda>d1.
     bnd (assign_expand d1 ''frequency'' ''frequency'' ''frequencies'') (\<lambda>d2.
     bnd (assign_expand d2 ''min_time'' ''min_time'' ''frequencies'') (\<lambda>d3.
     bnd (assign_expand d3 ''max_time'' ''max_time'' ''frequencies'') (\<lambda>d4.
     drop_df (reset_index d4) [''frequencies'']))))"

definition CatalogIndexesData_to_dataframe :: "'n parser \<Rightarrow> 'n records \<Rightarrow> exn + 'n dataframe" where
  "CatalogIndexesData_to_dataframe isoparse self =
     bnd (frequencies_chain (DataFrame self)) (\<lambda>df_indexes.
     convert_catalog_dtypes isoparse df_indexes)"

text \<open>
  \<open>CatalogAssetPairsData\<close>, \<open>CatalogExchangeAssetsData\<close>, \<open>CatalogInstitutionsData\<close>
  and \<open>CatalogMarketMetricsData\<close> share the chain below, which is also the
  \<open>"metrics"\<close> branch of \<open>CatalogExchangesData\<close>.
\<close>

definition metrics_chain :: "'n dataframe \<Rightarrow> exn + 'n dataframe" where
  "metrics_chain df =
     bnd (explode df ''metrics'') (\<lambda>d1.
     bnd (assign_expand d1 ''metric'' ''metric'' ''metrics'') (\<lambda>d2.
     bnd (assign_expand d2 ''frequencies'' ''frequencies'' ''metrics'') (\<lambda>d3.
     bnd (explode d3 ''frequencies'') (\<lambda>d4.
     bnd (assign_expand d4 ''frequency'' ''frequency'' ''frequencies'') (\<lambda>d5.
     bnd (assign_expand d5 ''min_time'' ''min_time'' ''frequencies'') (\<lambda>d6.
     bnd (assign_expand d6 ''max_time'' ''max_time'' ''frequencies'') (\<lambda>d7.
     drop_df (reset_index d7) [''metrics'', ''frequencies''])))))))"

subsection \<open>\<open>CatalogExchangesData\<close>\<close>

definition CatalogExchangesData_to_dataframe ::
    "'n parser \<Rightarrow> 'n records \<Rightarrow> string option \<Rightarrow> error + 'n dataframe" where
  "CatalogExchangesData_to_dataframe isoparse self secondary_level =
     (let df_exchanges = DataFrame self in
      bnd (if secondary_level = None then Inr df_exchanges
           else if secondary_level = Some ''markets'' then
             lift (bnd (explode df_exchanges ''markets'') (\<lambda>d. Inr (rename d ''markets'' ''market'')))
           else if secondary_level = Some ''metrics'' then
             lift (metrics_chain df_exchanges)
           else Inl (SecondaryLevelError ''secondary_level must be one of 'markets' or 'metrics''))
        (\<lambda>df. lift (convert_catalog_dtypes isoparse df)))"

subsection \<open>\<open>CatalogAssetsData\<close>\<close>

text \<open>\<open>row.split("-")[0]\<close>: only a string has \<open>split\<close>.\<close>

definition split_first :: "'n val \<Rightarrow> exn + 'n val" where
  "split_first row =
     (case row of
        Str s \<Rightarrow> Inr (Str (takeWhile (\<lambda>ch. ch \<noteq> CHR ''-'') s))
      | _ \<Rightarrow> Inl AttributeError)"

text \<open>
  The \<open>"markets"\<close> branch.  When the rename meets an existing \<open>market\<close> column the label
  is repeated, \<open>x["market"]\<close> is a frame, its \<open>apply\<close> hands whole columns to the lambda,
  and a column has no \<open>split\<close>.
\<close>

definition assets_markets :: "'n dataframe \<Rightarrow> exn + 'n dataframe" where
  "assets_markets df_assets =
     bnd (explode df_assets ''markets'') (\<lambda>d1.
     let d2 = fillna d1 ''markets'' (Str []);
         d3 = rename d2 ''markets'' ''market''
     in bnd (case getitem d3 ''market'' of
               Series vs \<Rightarrow> map_exn split_first vs
             | Missing \<Rightarrow> Inl KeyError
             | SubFrame \<Rightarrow> Inl AttributeError) (\<lambda>exchange.
        bnd (assign d3 ''exchange'' exchange) (\<lambda>d4.
        bnd (drop_df d4 [''exchanges'']) (\<lambda>d5.
        Inr (reset_index d5)))))"

text \<open>
  The \<open>"metrics"\<close> branch.  Two library calls are parameters: \<open>apply(pd.Series)\<close> on a
  column (given its row labels and cells), and the left \<open>merge\<close> of two frames on a list
  of key columns.
\<close>

type_synonym 'n series_to_frame = "nat list \<Rightarrow> 'n val list \<Rightarrow> exn + 'n dataframe"
type_synonym 'n merger = "'n dataframe \<Rightarrow> 'n dataframe \<Rightarrow> string list \<Rightarrow> exn + 'n dataframe"

definition assign_metric :: "'n val \<Rightarrow> exn + 'n val" where
  "assign_metric x =
     (case subscript x ''metric'' of
        Inr v \<Rightarrow> Inr v
      | Inl TypeError \<Rightarrow> Inr NA
      | Inl e \<Rightarrow> Inl e)"

definition select :: "bool list \<Rightarrow> 'a list \<Rightarrow> 'a list" where
  "select keep xs = map snd (filter fst (zip keep xs))"

text \<open>\<open>dropna(subset=[c])\<close>: the rows whose cell in column \<open>c\<close> is absent are removed.\<close>

definition dropna :: "'n dataframe \<Rightarrow> string \<Rightarrow> exn + 'n dataframe" where
  "dropna df c =
     (case getitem df c of
        Series vs \<Rightarrow>
          (let keep = map (\<lambda>v. v \<noteq> NA) vs in
           Inr \<lparr> index = select keep (index df),
                 cols = map (\<lambda>p. (fst p, select keep (snd p))) (cols df) \<rparr>)
      | Missing \<Rightarrow> Inl KeyError
      | SubFrame \<Rightarrow> Inl OutsideModel)"

definition assets_metrics :: "'n series_to_frame \<Rightarrow> 'n merger \<Rightarrow> 'n dataframe \<Rightarrow> exn + 'n dataframe" where
  "assets_metrics apply_Series merge df_assets =
     bnd (attr_column df_assets ''asset'') (\<lambda>assets.
     let asset_mapper = zip (index df_assets) assets in
     bnd (explode df_assets ''metrics'') (\<lambda>d0.
     bnd (item_column d0 ''metrics'') (\<lambda>ms0.
     bnd (assign d0 ''metrics'' ms0) (\<lambda>d1.
     bnd (item_column d1 ''metrics'') (\<lambda>ms.
     bnd (map_exn assign_metric ms) (\<lambda>metric.
     let d2 = setitem d1 ''metric'' metric in
     bnd (dropna d2 ''metrics'') (\<lambda>d3.
     bnd (attr_column d3 ''metrics'') (\<lambda>ms3.
     bnd (apply_Series (index d3) ms3) (\<lambda>m0.
     let m1 = setitem m0 ''asset''
                (map (\<lambda>i. case map_of asset_mapper i of Some a \<Rightarrow> a | None \<Rightarrow> NA) (index m0)) in
     bnd (explode m1 ''frequencies'') (\<lambda>m2.
     bnd (assign_expand m2 ''frequency'' ''frequency'' ''frequencies'') (\<lambda>m3.
     bnd (assign_expand m3 ''min_time'' ''min_time'' ''frequencies'') (\<lambda>m4.
     bnd (assign_expand m4 ''max_time'' ''max_time'' ''frequencies'') (\<lambda>m5.
     bnd (assign_expand m5 ''min_height'' ''min_height'' ''frequencies'') (\<lambda>m6.
     bnd (assign_expand m6 ''max_height'' ''max_height'' ''frequencies'') (\<lambda>m7.
     bnd (assign_expand m7 ''min_hash'' ''min_hash'' ''frequencies'') (\<lambda>m8.
     bnd (assign_expand m8 ''max_hash'' ''max_hash'' ''frequencies'') (\<lambda>m9.
     bnd (drop_df m9 [''frequencies'']) (\<lambda>df_assets_metrics.
     bnd (drop_df d2 [''metrics'']) (\<lambda>d4.
     bnd (merge d4 df_assets_metrics [''metric'', ''asset'']) (\<lambda>d5.
     Inr (reset_index d5)))))))))))))))))))))"

definition CatalogAssetsData_to_dataframe ::
    "'n series_to_frame \<Rightarrow> 'n merger \<Rightarrow> 'n parser \<Rightarrow> 'n records \<Rightarrow> string option \<Rightarrow> error + 'n dataframe" where
  "CatalogAssetsData_to_dataframe apply_Series merge isoparse self secondary_level =
     (let df_assets = DataFrame self in
      bnd (if secondary_level = None then Inr df_assets
           else if secondary_level = Some ''markets'' then lift (assets_markets df_assets)
           else if secondary_level = Some ''metrics'' then
             lift (assets_metrics apply_Series merge df_assets)
           else Inl (SecondaryLevelError
                  ''secondary_level must be one of None, 'markets' or 'metrics''))
        (\<lambda>df. lift (convert_catalog_dtypes isoparse df)))"

section \<open>The example exporters\<close>

text \<open>
  Both exporters start with
  \<open>api_key = environ.get("CM_API_KEY") or sys.argv[1]\<close>.
  The environment is a map, \<open>argv\<close> a list whose element \<open>0\<close> is the script name.
  \<open>or\<close> takes its right operand when the left one is \<open>None\<close> or the empty string, and
  \<open>sys.argv[1]\<close> raises \<open>IndexError\<close> when no argument was given.
\<close>

definition api_key :: "(string \<rightharpoonup> string) \<Rightarrow> string list \<Rightarrow> exn + string" where
  "api_key environ argv =
     (case environ ''CM_API_KEY'' of
        Some v \<Rightarrow> if v \<noteq> [] then Inr v
                  else if 1 < length argv then Inr (argv ! 1) else Inl IndexError
      | None \<Rightarrow> if 1 < length argv then Inr (argv ! 1) else Inl IndexError)"

text \<open>
  \<open>export_data\<close> of the reference-rates exporter, as the trace of what it does: the
  warning, the creation of the pool with its size, the tasks handed to the pool, and
  the log line after each task that returned.  \<open>ASSETS_TO_EXPORT\<close> is a set, so the
  order in which the loop visits it is an argument (\<open>order\<close>); \<open>worker\<close> says which
  exception, if any, the task of an asset ends with, which \<open>task.get()\<close> raises again.
\<close>

datatype event =
    Warned
  | PoolOpened nat
  | Submitted string
  | Processed nat nat

definition ASSETS_TO_EXPORT :: "string set" where
  "ASSETS_TO_EXPORT = {''btc'', ''eth''}"

fun get_tasks :: "(string \<Rightarrow> exn option) \<Rightarrow> nat \<Rightarrow> nat \<Rightarrow> string list \<Rightarrow> event list \<times> exn option" where
  "get_tasks worker i n [] = ([], None)"
| "get_tasks worker i n (task # tasks) =
     (case worker task of
        Some e \<Rightarrow> ([], Some e)
      | None \<Rightarrow> (case get_tasks worker (i + 1) n tasks of
                   (evs, r) \<Rightarrow> (Processed i n # evs, r)))"

definition export_data :: "(string \<Rightarrow> exn option) \<Rightarrow> string list \<Rightarrow> event list \<times> exn option" where
  "export_data worker order =
     (let processes_count = (2::nat);
          warning = (if processes_count > 2 then [Warned] else []);
          tasks = order
      in case get_tasks worker 1 (length tasks) tasks of
           (evs, r) \<Rightarrow> (warning @ [PoolOpened processes_count] @ map Submitted tasks @ evs, r))"

section \<open>Notions used in the statements\<close>

text \<open>
  What \<open>_convert_utc\<close> leaves in a cell, and whether it returns at all on a value.
\<close>

definition coerce :: "'n parser \<Rightarrow> 'n val \<Rightarrow> 'n val" where
  "coerce isoparse v = (case convert_utc isoparse v of Inr t \<Rightarrow> t | Inl e \<Rightarrow> NA)"

definition converts :: "'n parser \<Rightarrow> 'n val \<Rightarrow> bool" where
  "converts isoparse v = (case convert_utc isoparse v of Inr t \<Rightarrow> True | Inl e \<Rightarrow> False)"

text \<open>The frame with \<open>_convert_utc\<close> applied to the cells of the time-like columns only.\<close>

definition coerced :: "'n parser \<Rightarrow> 'n dataframe \<Rightarrow> 'n dataframe" where
  "coerced isoparse df =
     df\<lparr>cols := map (\<lambda>p. (fst p, if time_like (fst p) then map (coerce isoparse) (snd p) else snd p))
                  (cols df)\<rparr>"



text \<open>
  A parser of this kind for the examples: of the strings it accepts the calendar dates
  written \<open>YYYY-MM-DD\<close> and nothing else.
\<close>

definition digit :: "char \<Rightarrow> bool" where
  "digit ch = (48 \<le> (of_char ch :: nat) \<and> (of_char ch :: nat) \<le> 57)"

definition number :: "string \<Rightarrow> nat" where
  "number s = foldl (\<lambda>a ch. 10 * a + (of_char ch - 48)) 0 s"

definition date_isoparse :: "'n val \<Rightarrow> exn + 'n val" where
  "date_isoparse v =
     (case v of
        Str s \<Rightarrow>
          (if length s = 10 \<and> s ! 4 = CHR ''-'' \<and> s ! 7 = CHR ''-''
              \<and> list_all digit (take 4 s @ take 2 (drop 5 s) @ drop 8 s)
           then Inr (Datetime [number (take 4 s), number (take 2 (drop 5 s)), number (drop 8 s)])
           else Inl ValueError)
      | Lst xs \<Rightarrow> Inl (if length xs < 4 then ValueError else TypeError)
      | Dict kvs \<Rightarrow> Inl (if length kvs < 4 then ValueError else TypeError)
      | _ \<Rightarrow> Inl TypeError)"

text \<open>The value a key has in a dictionary cell, absent when the lookup raises.\<close>

definition item :: "string \<Rightarrow> 'n val \<Rightarrow> 'n val" where
  "item key row = (case subscript row key of Inr v \<Rightarrow> v | Inl e \<Rightarrow> NA)"

text \<open>
  A frame tabulates a list of rows \<open>xs\<close> by a cell function \<open>g\<close> when it has one row per
  element of \<open>xs\<close>, its column labels are pairwise distinct, and the cell of column \<open>c\<close>
  in the row of \<open>x\<close> is \<open>g c x\<close>.
\<close>

definition tabulates :: "'n dataframe \<Rightarrow> 'a list \<Rightarrow> (string \<Rightarrow> 'a \<Rightarrow> 'n val) \<Rightarrow> bool" where
  "tabulates df xs g \<longleftrightarrow>
     distinct (columns df) \<and> length (index df) = length xs \<and>
     cols df = map (\<lambda>c. (c, map (g c) xs)) (columns df)"

text \<open>
  The rows \<open>explode\<close> makes of a list of records: each record paired with each entry of
  its cell in the exploded column.
\<close>

definition exploded_rows :: "string \<Rightarrow> (string \<times> 'n val) list list \<Rightarrow> ((string \<times> 'n val) list \<times> 'n val) list" where
  "exploded_rows column data =
     concat (map (\<lambda>r. map (Pair r) (explode_cell (field r column))) data)"

text \<open>The column labels after \<open>assign(c=...)\<close>: \<open>c\<close> is appended unless it is there.\<close>

definition with_label :: "string \<Rightarrow> string list \<Rightarrow> string list" where
  "with_label c cs = (if c \<in> set cs then cs else cs @ [c])"

text \<open>
  The cell of column \<open>c\<close> in the row that \<open>CatalogIndexesData.to_dataframe\<close> makes of a
  record and one entry of its \<open>frequencies\<close>.
\<close>

definition index_cell :: "'n parser \<Rightarrow> string \<Rightarrow> (string \<times> 'n val) list \<times> 'n val \<Rightarrow> 'n val" where
  "index_cell isoparse c p =
     (if c = ''max_time'' then coerce isoparse (item ''max_time'' (snd p))
      else if c = ''min_time'' then coerce isoparse (item ''min_time'' (snd p))
      else if c = ''frequency'' then item ''frequency'' (snd p)
      else if time_like c then coerce isoparse (field (fst p) c)
      else field (fst p) c)"

definition index_columns :: "(string \<times> 'n val) list list \<Rightarrow> string list" where
  "index_columns self =
     filter (\<lambda>c. c \<noteq> ''frequencies'')
       (with_label ''max_time'' (with_label ''min_time'' (with_label ''frequency''
          (columns (DataFrame self)))))"

text \<open>
  The cell of column \<open>c\<close> in the row that the \<open>"markets"\<close> branch of
  \<open>CatalogAssetsData.to_dataframe\<close> makes of a record and one entry of its \<open>markets\<close>;
  \<open>market_of\<close> is the entry as the \<open>market\<close> column shows it.
\<close>

definition market_of :: "'n val \<Rightarrow> 'n val" where
  "market_of m = (if m = NA then Str [] else m)"

definition before_dash :: "'n val \<Rightarrow> 'n val" where
  "before_dash m = (case m of Str s \<Rightarrow> Str (takeWhile (\<lambda>ch. ch \<noteq> CHR ''-'') s) | _ \<Rightarrow> NA)"

definition market_cell :: "'n parser \<Rightarrow> string \<Rightarrow> (string \<times> 'n val) list \<times> 'n val \<Rightarrow> 'n val" where
  "market_cell isoparse c p =
     (if c = ''exchange'' then before_dash (market_of (snd p))
      else if c = ''market'' then market_of (snd p)
      else if time_like c then coerce isoparse (field (fst p) c)
      else field (fst p) c)"

definition market_columns :: "(string \<times> 'n val) list list \<Rightarrow> string list" where
  "market_columns self =
     filter (\<lambda>c. c \<noteq> ''exchanges'')
       (with_label ''exchange''
          (map (\<lambda>c. if c = ''markets'' then ''market'' else c) (columns (DataFrame self))))"

text \<open>
  Stand-ins for the two library calls of the \<open>"metrics"\<close> branch, for examples that
  do not reach them.
\<close>

definition no_apply_Series :: "'n series_to_frame" where
  "no_apply_Series labels cells = Inl OtherError"

definition no_merge :: "'n merger" where
  "no_merge left right keys = Inl OtherError"

section \<open>Results and sequencing\<close>

lemma bnd_Inr [simp]: "bnd (Inr x) f = f x"
  by (simp add: bnd_def)

lemma bnd_Inl [simp]: "bnd (Inl e) f = Inl e"
  by (simp add: bnd_def)


lemma map_exn_map:
  "(\<And>x. x \<in> set xs \<Longrightarrow> f x = Inr (g x)) \<Longrightarrow> map_exn f xs = Inr (map g xs)"
  by (induction xs) simp_all

section \<open>\<open>_expand_df\<close>\<close>

lemma assign_value_total: "assign_value key row = Inr (item key row)"
  by (cases "(row, key)" rule: subscript.cases)
     (simp_all add: assign_value_def item_def split: option.splits)

lemma expand_df_items: "expand_df key rows = Inr (map (item key) rows)"
  unfolding expand_df_def by (rule map_exn_map) (rule assign_value_total)

text \<open>
  C3.  For every key and every sequence of rows \<open>_expand_df\<close> returns, never raises,
  and its result has one entry per row: the value \<open>row[key]\<close> when that lookup succeeds
  and the absent value when it raises (\<open>KeyError\<close> for a dictionary without the key,
  \<open>TypeError\<close> for a row that is no dictionary).
\<close>

theorem expand_df_substitutes_absent:
  "\<exists>ys. expand_df key rows = Inr ys \<and> length ys = length rows \<and>
        ys = map (\<lambda>row. case subscript row key of Inr v \<Rightarrow> v | Inl e \<Rightarrow> NA) rows"
  using expand_df_items[of key rows] by (simp add: item_def[abs_def])

theorem expand_df_substitutes_absent_witness:
  "expand_df ''min_time''
     [Dict [(''frequency'', Str ''1d''), (''min_time'', Str ''2020-01-01'')],
      Dict [(''frequency'', Str ''1h'')], NA, Str ''1d'']
   = Inr [Str ''2020-01-01'', NA, NA, NA]"
  using expand_df_substitutes_absent[of "''min_time''"
     "[Dict [(''frequency'', Str ''1d''), (''min_time'', Str ''2020-01-01'')],
      Dict [(''frequency'', Str ''1h'')], NA, Str ''1d'']"]
  by simp

section \<open>Label access and the coercion loop\<close>

lemma filter_fst_distinct:
  "distinct (map fst cs) \<Longrightarrow>
   filter (\<lambda>p. fst p = c) cs = (case map_of cs c of None \<Rightarrow> [] | Some vs \<Rightarrow> [(c, vs)])"
proof (induction cs)
  case Nil
  show ?case by simp
next
  case (Cons p cs)
  show ?case
  proof (cases "fst p = c")
    case True
    with Cons.prems have "c \<notin> fst ` set cs" by auto
    then have "filter (\<lambda>p. fst p = c) cs = []"
      by (auto simp: filter_empty_conv)
    with True show ?thesis by (cases p) auto
  next
    case False
    with Cons show ?thesis by (cases p) auto
  qed
qed

lemma getitem_distinct:
  "distinct (columns df) \<Longrightarrow>
   getitem df c = (case map_of (cols df) c of None \<Rightarrow> Missing | Some vs \<Rightarrow> Series vs)"
  by (simp add: getitem_def columns_def filter_fst_distinct split: option.splits)

lemma getitem_Series_iff:
  assumes "distinct (columns df)"
  shows "getitem df c = Series vs \<longleftrightarrow> (c, vs) \<in> set (cols df)"
proof -
  have d: "distinct (map fst (cols df))" using assms by (simp add: columns_def)
  have "getitem df c = Series vs \<longleftrightarrow> map_of (cols df) c = Some vs"
    using assms by (simp add: getitem_distinct split: option.splits)
  also have "\<dots> \<longleftrightarrow> (c, vs) \<in> set (cols df)"
    using d by (rule map_of_eq_Some_iff)
  finally show ?thesis .
qed

lemma getitem_Missing_iff:
  assumes "distinct (columns df)"
  shows "getitem df c = Missing \<longleftrightarrow> c \<notin> set (columns df)"
proof -
  have "getitem df c = Missing \<longleftrightarrow> map_of (cols df) c = None"
    using assms by (simp add: getitem_distinct split: option.splits)
  also have "\<dots> \<longleftrightarrow> c \<notin> set (columns df)"
    by (simp add: map_of_eq_None_iff columns_def)
  finally show ?thesis .
qed

lemma columns_setitem_mem:
  "c \<in> set (columns df) \<Longrightarrow> columns (setitem df c vs) = columns df"
  by (simp add: setitem_def set_column_def columns_def comp_def)

lemma cols_setitem_mem:
  "c \<in> set (columns df) \<Longrightarrow>
   cols (setitem df c vs) = map (\<lambda>p. (fst p, if fst p = c then vs else snd p)) (cols df)"
  by (simp add: setitem_def set_column_def columns_def)

lemma convert_utc_coerce: "convert_utc P v = Inr y \<Longrightarrow> coerce P v = y"
  by (simp add: coerce_def)

lemma map_exn_convert:
  "(\<And>v. v \<in> set xs \<Longrightarrow> converts P v) \<Longrightarrow> map_exn (convert_utc P) xs = Inr (map (coerce P) xs)"
proof (induction xs)
  case Nil
  show ?case by simp
next
  case (Cons x xs)
  have "converts P x" using Cons.prems by simp
  then obtain y where y: "convert_utc P x = Inr y"
    by (auto simp: converts_def split: sum.splits)
  then have "coerce P x = y" by (rule convert_utc_coerce)
  moreover have "map_exn (convert_utc P) xs = Inr (map (coerce P) xs)"
    using Cons by simp
  ultimately show ?case using y by simp
qed


lemma coerce_loop_ok:
  "distinct (columns df) \<Longrightarrow> set cs \<subseteq> set (columns df) \<Longrightarrow> distinct cs \<Longrightarrow>
   (\<And>c xs v. c \<in> set cs \<Longrightarrow> (c, xs) \<in> set (cols df) \<Longrightarrow> v \<in> set xs \<Longrightarrow> converts P v) \<Longrightarrow>
   coerce_loop P cs df =
     Inr (df\<lparr>cols := map (\<lambda>p. (fst p, if fst p \<in> set cs then map (coerce P) (snd p) else snd p))
                      (cols df)\<rparr>)"
proof (induction cs arbitrary: df)
  case Nil
  show ?case by simp
next
  case (Cons c cs)
  from Cons.prems(2) have cin: "c \<in> set (columns df)" by simp
  then obtain xs where xs: "(c, xs) \<in> set (cols df)"
    by (auto simp: columns_def)
  with Cons.prems(1) have g: "getitem df c = Series xs"
    by (simp add: getitem_Series_iff)
  have conv: "map_exn (convert_utc P) xs = Inr (map (coerce P) xs)"
    using Cons.prems(4)[of c xs] xs by (intro map_exn_convert) simp
  let ?df = "setitem df c (map (coerce P) xs)"
  have colsdf: "cols ?df = map (\<lambda>p. (fst p, if fst p = c then map (coerce P) (snd p) else snd p)) (cols df)"
  proof -
    have "\<And>p. p \<in> set (cols df) \<Longrightarrow> fst p = c \<Longrightarrow> snd p = xs"
      using Cons.prems(1) xs
      by (metis columns_def eq_key_imp_eq_value prod.collapse)
    then show ?thesis
      using cin by (simp add: cols_setitem_mem cong: map_cong)
  qed
  have cdf: "columns ?df = columns df"
    using cin by (rule columns_setitem_mem)
  have IH: "coerce_loop P cs ?df =
     Inr (?df\<lparr>cols := map (\<lambda>p. (fst p, if fst p \<in> set cs then map (coerce P) (snd p) else snd p))
                      (cols ?df)\<rparr>)"
  proof (rule Cons.IH)
    show "distinct (columns ?df)" using cdf Cons.prems(1) by simp
    show "set cs \<subseteq> set (columns ?df)" using cdf Cons.prems(2) by simp
    show "distinct cs" using Cons.prems(3) by simp
    fix c' xs' v
    assume a: "c' \<in> set cs" "(c', xs') \<in> set (cols ?df)" "v \<in> set xs'"
    from a(1) Cons.prems(3) have ne: "c' \<noteq> c" by auto
    from a(2) ne have "(c', xs') \<in> set (cols df)"
      unfolding colsdf by auto
    with a(1,3) show "converts P v"
      using Cons.prems(4)[of c' xs' v] by simp
  qed
  have notin: "c \<notin> set cs" using Cons.prems(3) by simp
  have "coerce_loop P (c # cs) df = coerce_loop P cs ?df"
    using g conv by simp
  also have "\<dots> = Inr (df\<lparr>cols := map (\<lambda>p. (fst p, if fst p \<in> set (c # cs) then map (coerce P) (snd p) else snd p))
                      (cols df)\<rparr>)"
    unfolding IH colsdf using notin by (auto simp: setitem_def)
  finally show ?case .
qed


lemma filter_time_like_cols:
  "map (\<lambda>p. (fst p, if fst p \<in> set (filter time_like (map fst cs)) then f (snd p) else snd p)) cs
   = map (\<lambda>p. (fst p, if time_like (fst p) then f (snd p) else snd p)) cs"
  by (rule map_cong) auto

lemma convert_catalog_dtypes_ok:
  assumes "distinct (columns df)"
    and "\<And>c xs v. time_like c \<Longrightarrow> (c, xs) \<in> set (cols df) \<Longrightarrow> v \<in> set xs \<Longrightarrow> converts P v"
  shows "convert_catalog_dtypes P df = Inr (coerced P df)"
proof -
  have "coerce_loop P (filter time_like (columns df)) df =
    Inr (df\<lparr>cols := map (\<lambda>p. (fst p, if fst p \<in> set (filter time_like (columns df))
                                       then map (coerce P) (snd p) else snd p)) (cols df)\<rparr>)"
    using assms by (intro coerce_loop_ok) auto
  then show ?thesis
    by (simp add: convert_catalog_dtypes_def convert_dtypes_def coerced_def columns_def
        filter_time_like_cols)
qed




lemma date_isoparse_simps:
  "date_isoparse NA = Inl TypeError"
  "date_isoparse (Str ''2020-01-01'') = Inr (Datetime [2020, 1, 1])"
  "date_isoparse (Str ''2021-06-30'') = Inr (Datetime [2021, 6, 30])"
  "date_isoparse (Str ''yesterday'') = Inl ValueError"
  "date_isoparse (Lst []) = Inl ValueError"
  by (simp_all add: date_isoparse_def digit_def number_def)




section \<open>\<open>_convert_utc\<close> and malformed dates\<close>

lemma map_exn_Inl_D: "map_exn f xs = Inl e \<Longrightarrow> \<exists>x \<in> set xs. f x = Inl e"
proof (induction xs)
  case Nil
  then show ?case by simp
next
  case (Cons x xs)
  then show ?case
    by (cases "f x"; cases "map_exn f xs") auto
qed

lemma coerce_loop_Inl_D:
  "coerce_loop P cs df = Inl e \<Longrightarrow> distinct (columns df) \<Longrightarrow> set cs \<subseteq> set (columns df) \<Longrightarrow>
   \<exists>v. convert_utc P v = Inl e"
proof (induction cs arbitrary: df)
  case Nil
  then show ?case by simp
next
  case (Cons c cs)
  from Cons.prems(3) have cin: "c \<in> set (columns df)" by simp
  then obtain xs where xs: "(c, xs) \<in> set (cols df)"
    by (auto simp: columns_def)
  with Cons.prems(2) have g: "getitem df c = Series xs"
    by (simp add: getitem_Series_iff)
  show ?case
  proof (cases "map_exn (convert_utc P) xs")
    case (Inl e')
    with g Cons.prems(1) have "e' = e" by simp
    with Inl show ?thesis using map_exn_Inl_D[of "convert_utc P" xs e] by auto
  next
    case (Inr ys)
    with g Cons.prems(1) have "coerce_loop P cs (setitem df c ys) = Inl e" by simp
    moreover have "columns (setitem df c ys) = columns df"
      using cin by (rule columns_setitem_mem)
    ultimately show ?thesis
      using Cons.IH[of "setitem df c ys"] Cons.prems(2,3) by simp
  qed
qed

lemma convert_catalog_dtypes_Inl_D:
  assumes "convert_catalog_dtypes P df = Inl e" and "distinct (columns df)"
  shows "\<exists>v. convert_utc P v = Inl e"
proof -
  have "coerce_loop P (filter time_like (columns df)) df = Inl e"
    using assms(1) by (simp add: convert_catalog_dtypes_def convert_dtypes_def)
  then show ?thesis
    using assms(2) by (rule coerce_loop_Inl_D) auto
qed





section \<open>The \<open>secondary_level\<close> check\<close>

lemma lift_not_SecondaryLevelError: "lift m \<noteq> Inl (SecondaryLevelError msg)"
  by (cases m) (simp_all add: lift_def)

lemma lift_simps [simp]: "lift (Inl e) = Inl (Raised e)" "lift (Inr x) = Inr x"
  by (simp_all add: lift_def)

lemma bnd_lift_not_SecondaryLevelError:
  "bnd (lift m) (\<lambda>df. lift (f df)) \<noteq> Inl (SecondaryLevelError msg)"
  by (cases m) (simp_all add: lift_not_SecondaryLevelError)

text \<open>
  C2.  \<open>CatalogAssetsData.to_dataframe\<close> and \<open>CatalogExchangesData.to_dataframe\<close>
  raise the \<open>ValueError\<close> of the parameter check for every \<open>secondary_level\<close> other
  than \<open>None\<close>, \<open>"markets"\<close> and \<open>"metrics"\<close>, whatever the records are; for those
  three values the parameter check raises nothing, whatever else the call does.
\<close>

theorem secondary_level_ValueError_iff:
  "(secondary_level \<notin> {None, Some ''markets'', Some ''metrics''} \<longrightarrow>
      CatalogAssetsData_to_dataframe apply_Series merge isoparse assets secondary_level
        = Inl (SecondaryLevelError ''secondary_level must be one of None, 'markets' or 'metrics'') \<and>
      CatalogExchangesData_to_dataframe isoparse exchanges secondary_level
        = Inl (SecondaryLevelError ''secondary_level must be one of 'markets' or 'metrics'')) \<and>
   (secondary_level \<in> {None, Some ''markets'', Some ''metrics''} \<longrightarrow>
      (\<forall>msg. CatalogAssetsData_to_dataframe apply_Series merge isoparse assets secondary_level
               \<noteq> Inl (SecondaryLevelError msg)) \<and>
      (\<forall>msg. CatalogExchangesData_to_dataframe isoparse exchanges secondary_level
               \<noteq> Inl (SecondaryLevelError msg)))"
proof (intro conjI impI allI)
  assume "secondary_level \<notin> {None, Some ''markets'', Some ''metrics''}"
  then obtain s where ne: "secondary_level = Some s" "s \<noteq> ''markets''" "s \<noteq> ''metrics''"
    by (cases secondary_level) auto
  show "CatalogAssetsData_to_dataframe apply_Series merge isoparse assets secondary_level
        = Inl (SecondaryLevelError ''secondary_level must be one of None, 'markets' or 'metrics'')"
    using ne by (simp add: CatalogAssetsData_to_dataframe_def Let_def)
  show "CatalogExchangesData_to_dataframe isoparse exchanges secondary_level
        = Inl (SecondaryLevelError ''secondary_level must be one of 'markets' or 'metrics'')"
    using ne by (simp add: CatalogExchangesData_to_dataframe_def Let_def)
next
  fix msg
  assume "secondary_level \<in> {None, Some ''markets'', Some ''metrics''}"
  then consider "secondary_level = None" | "secondary_level = Some ''markets''"
    | "secondary_level = Some ''metrics''" by auto
  then show "CatalogAssetsData_to_dataframe apply_Series merge isoparse assets secondary_level
               \<noteq> Inl (SecondaryLevelError msg)"
  proof cases
    case 1
    then show ?thesis
      by (simp add: CatalogAssetsData_to_dataframe_def Let_def lift_not_SecondaryLevelError)
  next
    case 2
    then show ?thesis
      by (simp add: CatalogAssetsData_to_dataframe_def Let_def bnd_lift_not_SecondaryLevelError)
  next
    case 3
    then show ?thesis
      by (simp add: CatalogAssetsData_to_dataframe_def Let_def bnd_lift_not_SecondaryLevelError)
  qed
next
  fix msg
  assume "secondary_level \<in> {None, Some ''markets'', Some ''metrics''}"
  then consider "secondary_level = None" | "secondary_level = Some ''markets''"
    | "secondary_level = Some ''metrics''" by auto
  then show "CatalogExchangesData_to_dataframe isoparse exchanges secondary_level
               \<noteq> Inl (SecondaryLevelError msg)"
  proof cases
    case 1
    then show ?thesis
      by (simp add: CatalogExchangesData_to_dataframe_def Let_def lift_not_SecondaryLevelError)
  next
    case 2
    then show ?thesis
      by (simp add: CatalogExchangesData_to_dataframe_def Let_def bnd_lift_not_SecondaryLevelError)
  next
    case 3
    then show ?thesis
      by (simp add: CatalogExchangesData_to_dataframe_def Let_def bnd_lift_not_SecondaryLevelError)
  qed
qed

theorem secondary_level_ValueError_iff_witness:
  "CatalogAssetsData_to_dataframe no_apply_Series no_merge date_isoparse
       [[(''asset'', Str ''btc'')]] (Some ''market'')
     = Inl (SecondaryLevelError ''secondary_level must be one of None, 'markets' or 'metrics'') \<and>
   CatalogExchangesData_to_dataframe date_isoparse [[(''exchange'', Str ''kraken'')]] (Some ''market'')
     = Inl (SecondaryLevelError ''secondary_level must be one of 'markets' or 'metrics'') \<and>
   (\<forall>msg. CatalogAssetsData_to_dataframe no_apply_Series no_merge
       date_isoparse [[(''asset'', Str ''btc'')]] (Some ''metrics'') \<noteq> Inl (SecondaryLevelError msg)) \<and>
   (\<forall>msg. CatalogExchangesData_to_dataframe date_isoparse [[(''exchange'', Str ''kraken'')]] None
       \<noteq> Inl (SecondaryLevelError msg))"
proof -
  have 1: "Some ''market'' \<notin> {None, Some ''markets'', Some ''metrics''}" by simp
  have 2: "Some ''metrics'' \<in> {None, Some ''markets'', Some ''metrics''}" by simp
  have 3: "(None :: string option) \<in> {None, Some ''markets'', Some ''metrics''}" by simp
  note t1 = secondary_level_ValueError_iff[of "Some ''market''" no_apply_Series
        no_merge date_isoparse "[[(''asset'', Str ''btc'')]]"
        "[[(''exchange'', Str ''kraken'')]]", THEN conjunct1, THEN mp, OF 1]
  note t2 = secondary_level_ValueError_iff[of "Some ''metrics''" no_apply_Series
        no_merge date_isoparse "[[(''asset'', Str ''btc'')]]"
        "[[(''exchange'', Str ''kraken'')]]", THEN conjunct2, THEN mp, OF 2, THEN conjunct1]
  note t3 = secondary_level_ValueError_iff[of None no_apply_Series
        no_merge date_isoparse "[[(''asset'', Str ''btc'')]]"
        "[[(''exchange'', Str ''kraken'')]]", THEN conjunct2, THEN mp, OF 3, THEN conjunct2]
  from conjunct1[OF t1] conjunct2[OF t1] t2 t3 show ?thesis
    by - (intro conjI, assumption+)
qed

section \<open>The example exporters: key and pool\<close>

text \<open>
  C9.  The API key of the example exporters is the value of the environment variable
  \<open>CM_API_KEY\<close> when that is set and not empty; otherwise it is the first command-line
  argument \<open>sys.argv[1]\<close>, and the script fails with \<open>IndexError\<close> when there is none.
\<close>

theorem api_key_source:
  "(\<forall>v. environ ''CM_API_KEY'' = Some v \<and> v \<noteq> [] \<longrightarrow> api_key environ argv = Inr v) \<and>
   ((environ ''CM_API_KEY'' = None \<or> environ ''CM_API_KEY'' = Some []) \<and> 1 < length argv \<longrightarrow>
      api_key environ argv = Inr (argv ! 1)) \<and>
   ((environ ''CM_API_KEY'' = None \<or> environ ''CM_API_KEY'' = Some []) \<and> length argv \<le> 1 \<longrightarrow>
      api_key environ argv = Inl IndexError)"
  by (auto simp: api_key_def)

theorem api_key_source_witness:
  "api_key [''HOME'' \<mapsto> ''/root'', ''CM_API_KEY'' \<mapsto> ''k1''] [''exporter.py'', ''k2''] = Inr ''k1'' \<and>
   api_key [''HOME'' \<mapsto> ''/root''] [''exporter.py'', ''k2''] = Inr ''k2'' \<and>
   api_key [''CM_API_KEY'' \<mapsto> ''''] [''exporter.py'', ''k2''] = Inr ''k2'' \<and>
   api_key [''HOME'' \<mapsto> ''/root''] [''exporter.py''] = Inl IndexError"
  using api_key_source[of "[''HOME'' \<mapsto> ''/root'', ''CM_API_KEY'' \<mapsto> ''k1'']" "[''exporter.py'', ''k2'']"]
    api_key_source[of "[''HOME'' \<mapsto> ''/root'']" "[''exporter.py'', ''k2'']"]
    api_key_source[of "[''CM_API_KEY'' \<mapsto> '''']" "[''exporter.py'', ''k2'']"]
    api_key_source[of "[''HOME'' \<mapsto> ''/root'']" "[''exporter.py'']"]
  by simp

lemma get_tasks_events:
  "\<forall>e \<in> set (fst (get_tasks worker i n tasks)). \<exists>j m. e = Processed j m"
proof (induction tasks arbitrary: i)
  case Nil
  show ?case by simp
next
  case (Cons t ts)
  show ?case
    using Cons.IH[of "i + 1"]
    by (cases "worker t"; cases "get_tasks worker (i + 1) n ts") auto
qed

lemma distinct_filter_eq_once:
  "distinct xs \<Longrightarrow> a \<in> set xs \<Longrightarrow> length (filter (\<lambda>x. x = a) xs) = 1"
proof (induction xs)
  case Nil
  then show ?case by simp
next
  case (Cons x xs)
  show ?case
  proof (cases "x = a")
    case True
    with Cons.prems have "filter (\<lambda>x. x = a) xs = []"
      by (auto simp: filter_empty_conv)
    with True show ?thesis by simp
  next
    case False
    with Cons show ?thesis by simp
  qed
qed

text \<open>
  C10.  For every order in which the loop visits \<open>ASSETS_TO_EXPORT\<close> and whatever the
  tasks do, \<open>export_data\<close> of the reference-rates exporter first creates the pool, with
  exactly two workers, then submits one task per asset, each asset once, and after that
  only reports finished tasks; the warning of the branch \<open>processes_count > 2\<close> is never
  issued.
\<close>

theorem export_data_pool:
  assumes "distinct order" and "set order = ASSETS_TO_EXPORT"
  shows "\<exists>evs. fst (export_data worker order) = PoolOpened 2 # map Submitted order @ evs \<and>
           (\<forall>e \<in> set evs. \<exists>i n. e = Processed i n) \<and>
           Warned \<notin> set (fst (export_data worker order)) \<and>
           length order = card ASSETS_TO_EXPORT \<and>
           (\<forall>asset \<in> ASSETS_TO_EXPORT.
              length (filter (\<lambda>e. e = Submitted asset) (fst (export_data worker order))) = 1)"
proof -
  obtain evs r where g: "get_tasks worker 1 (length order) order = (evs, r)"
    by (cases "get_tasks worker 1 (length order) order")
  have evs: "\<forall>e \<in> set evs. \<exists>i n. e = Processed i n"
    using get_tasks_events[of worker 1 "length order" order] g by simp
  have run: "fst (export_data worker order) = PoolOpened 2 # map Submitted order @ evs"
    using g by (simp add: export_data_def)
  have nowarn: "Warned \<notin> set (fst (export_data worker order))"
    using evs unfolding run by auto
  have len: "length order = card ASSETS_TO_EXPORT"
    using assms distinct_card[of order] by simp
  have once: "length (filter (\<lambda>e. e = Submitted asset) (fst (export_data worker order))) = 1"
    if "asset \<in> ASSETS_TO_EXPORT" for asset
  proof -
    have "filter (\<lambda>e. e = Submitted asset) evs = []"
      using evs by (auto simp: filter_empty_conv)
    moreover have "filter (\<lambda>e. e = Submitted asset) (map Submitted order) = map Submitted (filter (\<lambda>a. a = asset) order)"
      by (induction order) auto
    moreover have "length (filter (\<lambda>a. a = asset) order) = 1"
      using assms that by (intro distinct_filter_eq_once) simp_all
    ultimately show ?thesis unfolding run by simp
  qed
  show ?thesis using run evs nowarn len once by blast
qed

theorem export_data_pool_witness:
  "(\<exists>evs. fst (export_data (\<lambda>a. None) [''eth'', ''btc''])
            = PoolOpened 2 # map Submitted [''eth'', ''btc''] @ evs) \<and>
   Warned \<notin> set (fst (export_data (\<lambda>a. None) [''eth'', ''btc''])) \<and>
   length (filter (\<lambda>e. e = Submitted ''btc'') (fst (export_data (\<lambda>a. None) [''eth'', ''btc'']))) = 1"
proof -
  have d: "distinct [''eth'', ''btc'']" by simp
  have s: "set [''eth'', ''btc''] = ASSETS_TO_EXPORT"
    by (auto simp: ASSETS_TO_EXPORT_def)
  have b: "''btc'' \<in> ASSETS_TO_EXPORT" by (simp add: ASSETS_TO_EXPORT_def)
  from export_data_pool[OF d s, of "\<lambda>a. None"] b show ?thesis by blast
qed

section \<open>Frames as tables of rows\<close>

lemma set_uniq [simp]: "set (uniq xs) = set xs"
  by (induction xs) auto

lemma distinct_uniq [simp]: "distinct (uniq xs)"
  by (induction xs) auto

lemma distinct_columns_DataFrame: "distinct (columns (DataFrame data))"
  by (simp add: DataFrame_def columns_def comp_def)

lemma set_columns_DataFrame: "set (columns (DataFrame data)) = (\<Union>r \<in> set data. fst ` set r)"
  by (simp add: DataFrame_def columns_def comp_def)

lemma tabulates_DataFrame: "tabulates (DataFrame data) data (\<lambda>c r. field r c)"
  unfolding tabulates_def
  by (simp add: distinct_columns_DataFrame) (simp add: DataFrame_def columns_def comp_def)

lemma index_DataFrame: "index (DataFrame data) = [0..<length data]"
  by (simp add: DataFrame_def)

lemma tabulates_cols_mem:
  assumes "tabulates df xs g"
  shows "(c, vs) \<in> set (cols df) \<longleftrightarrow> c \<in> set (columns df) \<and> vs = map (g c) xs"
proof -
  have "cols df = map (\<lambda>c. (c, map (g c) xs)) (columns df)"
    using assms by (simp add: tabulates_def)
  then have "set (cols df) = (\<lambda>c. (c, map (g c) xs)) ` set (columns df)"
    by (metis set_map)
  then show ?thesis by auto
qed

lemma getitem_tabulates:
  assumes "tabulates df xs g" and "c \<in> set (columns df)"
  shows "getitem df c = Series (map (g c) xs)"
proof -
  have "distinct (columns df)" using assms(1) by (simp add: tabulates_def)
  then show ?thesis
    using assms by (simp add: getitem_Series_iff tabulates_cols_mem)
qed

lemma attr_column_tabulates:
  assumes "tabulates df xs g" and "c \<in> set (columns df)"
  shows "attr_column df c = Inr (map (g c) xs)"
  using getitem_tabulates[OF assms] by (simp add: attr_column_def)

lemma tabulates_cong:
  assumes "tabulates df xs g" and "\<And>c x. c \<in> set (columns df) \<Longrightarrow> x \<in> set xs \<Longrightarrow> g c x = h c x"
  shows "tabulates df xs h"
proof -
  have "map (\<lambda>c. (c, map (g c) xs)) (columns df) = map (\<lambda>c. (c, map (h c) xs)) (columns df)"
    using assms(2) by (intro map_cong) auto
  then show ?thesis using assms(1) by (simp add: tabulates_def)
qed

lemma length_concat_explode:
  "length (concat (map (\<lambda>x. map (Pair x) (e x)) xs)) = sum_list (map (\<lambda>x. length (e x)) xs)"
  by (induction xs) simp_all

lemma repeat_map:
  "repeat (map (\<lambda>x. length (e x)) xs) (map h xs)
   = map (\<lambda>p. h (fst p)) (concat (map (\<lambda>x. map (Pair x) (e x)) xs))"
  by (induction xs) (simp_all add: repeat_def comp_def map_replicate_const)

lemma length_repeat:
  "length ys = length ns \<Longrightarrow> length (repeat ns ys) = sum_list ns"
  unfolding repeat_def
  by (induction ns ys rule: list_induct2') simp_all

lemma concat_explode_snd:
  "concat (map e xs) = map snd (concat (map (\<lambda>x. map (Pair x) (e x)) xs))"
  by (induction xs) (simp_all add: comp_def)

lemma explode_tabulates:
  assumes t: "tabulates df xs g" and k: "k \<in> set (columns df)"
  shows "\<exists>df'. explode df k = Inr df' \<and> columns df' = columns df \<and>
           tabulates df' (concat (map (\<lambda>x. map (Pair x) (explode_cell (g k x))) xs))
             (\<lambda>c p. if c = k then snd p else g c (fst p))"
proof -
  let ?e = "\<lambda>x. explode_cell (g k x)"
  let ?rows = "concat (map (\<lambda>x. map (Pair x) (?e x)) xs)"
  let ?counts = "map (\<lambda>v. length (explode_cell v)) (map (g k) xs)"
  have d: "distinct (columns df)" and len: "length (index df) = length xs"
    and cs: "cols df = map (\<lambda>c. (c, map (g c) xs)) (columns df)"
    using t by (simp_all add: tabulates_def)
  have g: "getitem df k = Series (map (g k) xs)"
    using t k by (rule getitem_tabulates)
  have counts: "?counts = map (\<lambda>x. length (?e x)) xs" by (simp add: comp_def)
  define df' where "df' = \<lparr> index = repeat ?counts (index df),
       cols = map (\<lambda>p. (fst p, if fst p = k then concat (map explode_cell (snd p))
                                           else repeat ?counts (snd p))) (cols df) \<rparr>"
  have ex: "explode df k = Inr df'"
    using d g by (simp add: explode_def df'_def Let_def)
  have cols': "columns df' = columns df"
    by (simp add: df'_def columns_def comp_def)
  have cell: "(if c = k then concat (map explode_cell (map (g c) xs)) else repeat ?counts (map (g c) xs))
      = map (\<lambda>p. if c = k then snd p else g c (fst p)) ?rows" for c
  proof (cases "c = k")
    case True
    then show ?thesis
      using concat_explode_snd[of ?e xs] by (simp add: comp_def)
  next
    case False
    then show ?thesis
      unfolding counts using repeat_map[of ?e xs "g c"] by simp
  qed
  have "cols df' = map (\<lambda>p. (fst p, if fst p = k then concat (map explode_cell (snd p))
                                           else repeat ?counts (snd p)))
                     (map (\<lambda>c. (c, map (g c) xs)) (columns df))"
    unfolding df'_def using cs by simp
  also have "\<dots> = map (\<lambda>c. (c, if c = k then concat (map explode_cell (map (g c) xs))
                                   else repeat ?counts (map (g c) xs))) (columns df)"
    by (simp only: map_map comp_def fst_conv snd_conv)
  also have "\<dots> = map (\<lambda>c. (c, map (\<lambda>p. if c = k then snd p else g c (fst p)) ?rows)) (columns df)"
    by (simp only: cell)
  finally have "cols df' = map (\<lambda>c. (c, map (\<lambda>p. if c = k then snd p else g c (fst p)) ?rows)) (columns df)" .
  moreover have "length (index df') = length ?rows"
    unfolding df'_def counts
    using len by (simp add: length_repeat length_concat_explode)
  ultimately have "tabulates df' ?rows (\<lambda>c p. if c = k then snd p else g c (fst p))"
    using d cols' by (simp add: tabulates_def)
  with ex cols' show ?thesis by blast
qed

lemma columns_setitem:
  "columns (setitem df c vs) = (if c \<in> set (columns df) then columns df else columns df @ [c])"
  by (simp add: setitem_def set_column_def columns_def comp_def)

lemma index_setitem [simp]: "index (setitem df c vs) = index df"
  by (simp add: setitem_def)

lemma setitem_tabulates:
  assumes t: "tabulates df xs g"
  shows "tabulates (setitem df c (map h xs)) xs (\<lambda>c' x. if c' = c then h x else g c' x)"
proof -
  have d: "distinct (columns df)" and len: "length (index df) = length xs"
    and cs: "cols df = map (\<lambda>c. (c, map (g c) xs)) (columns df)"
    using t by (simp_all add: tabulates_def)
  let ?g = "\<lambda>c' x. if c' = c then h x else g c' x"
  have dist: "distinct (columns (setitem df c (map h xs)))"
    using d by (simp add: columns_setitem)
  have "cols (setitem df c (map h xs)) = map (\<lambda>c'. (c', map (?g c') xs)) (columns (setitem df c (map h xs)))"
  proof (cases "c \<in> set (columns df)")
    case True
    then have "cols (setitem df c (map h xs))
        = map (\<lambda>p. (fst p, if fst p = c then map h xs else snd p)) (cols df)"
      by (rule cols_setitem_mem)
    also have "\<dots> = map (\<lambda>p. (fst p, if fst p = c then map h xs else snd p))
                        (map (\<lambda>c. (c, map (g c) xs)) (columns df))"
      using cs by simp
    also have "\<dots> = map (\<lambda>c'. (c', map (?g c') xs)) (columns df)"
      by (simp add: comp_def)
    finally show ?thesis using True by (simp add: columns_setitem)
  next
    case False
    then have "cols (setitem df c (map h xs)) = cols df @ [(c, map h xs)]"
      by (simp add: setitem_def set_column_def columns_def)
    also have "\<dots> = map (\<lambda>c. (c, map (g c) xs)) (columns df) @ [(c, map h xs)]"
      using cs by simp
    also have "\<dots> = map (\<lambda>c'. (c', map (?g c') xs)) (columns df @ [c])"
      using False by (auto intro: map_cong)
    finally show ?thesis using False by (simp add: columns_setitem)
  qed
  with dist len show ?thesis by (simp add: tabulates_def)
qed

lemma assign_expand_tabulates:
  assumes t: "tabulates df xs g" and src: "src \<in> set (columns df)"
  shows "\<exists>df'. assign_expand df name key src = Inr df' \<and>
           columns df' = (if name \<in> set (columns df) then columns df else columns df @ [name]) \<and>
           tabulates df' xs (\<lambda>c x. if c = name then item key (g src x) else g c x)"
proof -
  have len: "length (index df) = length xs" using t by (simp add: tabulates_def)
  have a: "attr_column df src = Inr (map (g src) xs)"
    using t src by (rule attr_column_tabulates)
  have "assign_expand df name key src = Inr (setitem df name (map (\<lambda>x. item key (g src x)) xs))"
    using len by (simp add: assign_expand_def a expand_df_items assign_def comp_def)
  moreover have "tabulates (setitem df name (map (\<lambda>x. item key (g src x)) xs)) xs
      (\<lambda>c x. if c = name then item key (g src x) else g c x)"
    using t by (rule setitem_tabulates)
  ultimately show ?thesis by (simp add: columns_setitem)
qed

lemma reset_index_tabulates:
  "tabulates df xs g \<Longrightarrow> tabulates (reset_index df) xs g"
  by (simp add: tabulates_def reset_index_def columns_def)

lemma columns_reset_index [simp]: "columns (reset_index df) = columns df"
  by (simp add: reset_index_def columns_def)

lemma index_reset_index_tabulates:
  "tabulates df xs g \<Longrightarrow> index (reset_index df) = [0..<length xs]"
  by (simp add: tabulates_def reset_index_def)

lemma drop_df_tabulates:
  assumes t: "tabulates df xs g" and ls: "set ls \<subseteq> set (columns df)"
  shows "\<exists>df'. drop_df df ls = Inr df' \<and> index df' = index df \<and>
           columns df' = filter (\<lambda>c. c \<notin> set ls) (columns df) \<and> tabulates df' xs g"
proof -
  have d: "distinct (columns df)" and len: "length (index df) = length xs"
    and cs: "cols df = map (\<lambda>c. (c, map (g c) xs)) (columns df)"
    using t by (simp_all add: tabulates_def)
  let ?df = "df\<lparr>cols := filter (\<lambda>p. fst p \<notin> set ls) (cols df)\<rparr>"
  have r: "drop_df df ls = Inr ?df"
    using ls by (auto simp: drop_df_def)
  have c: "columns ?df = filter (\<lambda>c. c \<notin> set ls) (columns df)"
    by (simp add: columns_def filter_map comp_def)
  have "cols ?df = filter (\<lambda>p. fst p \<notin> set ls) (map (\<lambda>c. (c, map (g c) xs)) (columns df))"
    using cs by simp
  also have "\<dots> = map (\<lambda>c. (c, map (g c) xs)) (filter (\<lambda>c. c \<notin> set ls) (columns df))"
    by (simp add: filter_map comp_def)
  finally have "tabulates ?df xs g"
    using d len c by (simp add: tabulates_def)
  with r c show ?thesis by simp
qed

lemma convert_catalog_dtypes_tabulates:
  assumes t: "tabulates df xs g"
    and ok: "\<And>c x. c \<in> set (columns df) \<Longrightarrow> time_like c \<Longrightarrow> x \<in> set xs \<Longrightarrow> converts P (g c x)"
  shows "\<exists>df'. convert_catalog_dtypes P df = Inr df' \<and> index df' = index df \<and>
           columns df' = columns df \<and>
           tabulates df' xs (\<lambda>c x. if time_like c then coerce P (g c x) else g c x)"
proof -
  have d: "distinct (columns df)" and len: "length (index df) = length xs"
    and cs: "cols df = map (\<lambda>c. (c, map (g c) xs)) (columns df)"
    using t by (simp_all add: tabulates_def)
  have r: "convert_catalog_dtypes P df = Inr (coerced P df)"
  proof (rule convert_catalog_dtypes_ok[OF d])
    fix c vs v
    assume "time_like c" "(c, vs) \<in> set (cols df)" "v \<in> set vs"
    then show "converts P v"
      using ok[of c] by (auto simp: tabulates_cols_mem[OF t])
  qed
  have c: "columns (coerced P df) = columns df"
    by (simp add: coerced_def columns_def comp_def)
  have "cols (coerced P df) = map (\<lambda>p. (fst p, if time_like (fst p) then map (coerce P) (snd p) else snd p))
      (map (\<lambda>c. (c, map (g c) xs)) (columns df))"
    using cs by (simp add: coerced_def)
  also have "\<dots> = map (\<lambda>c. (c, map (\<lambda>x. if time_like c then coerce P (g c x) else g c x) xs)) (columns df)"
    by (simp add: comp_def)
  finally have "tabulates (coerced P df) xs (\<lambda>c x. if time_like c then coerce P (g c x) else g c x)"
    using d len c by (simp add: tabulates_def coerced_def)
  with r c show ?thesis by (simp add: coerced_def)
qed

section \<open>\<open>CatalogIndexesData.to_dataframe\<close>\<close>

lemma explode_missing:
  assumes "distinct (columns df)" and "k \<notin> set (columns df)"
  shows "explode df k = Inl KeyError"
  using assms by (simp add: explode_def getitem_Missing_iff[THEN iffD2])

lemma dataframe_eqI:
  "index df = i \<Longrightarrow> cols df = cs \<Longrightarrow> df = \<lparr>index = i, cols = cs\<rparr>"
  by (cases df) simp

lemma time_like_simps [simp]:
  "time_like ''min_time''" "time_like ''max_time''" "\<not> time_like ''frequency''"
  "\<not> time_like ''frequencies''"
  by (simp_all add: time_like_def endswith_def)

lemma indexes_rows:
  fixes self :: "'n records"
  assumes key: "''frequencies'' \<in> set (columns (DataFrame self))"
    and own: "\<forall>c \<in> set (columns (DataFrame self)).
                time_like c \<and> c \<noteq> ''min_time'' \<and> c \<noteq> ''max_time'' \<longrightarrow>
                (\<forall>r \<in> set self. converts P (field r c))"
    and ent: "\<forall>p \<in> set (exploded_rows ''frequencies'' self).
                converts P (item ''min_time'' (snd p)) \<and> converts P (item ''max_time'' (snd p))"
  shows "CatalogIndexesData_to_dataframe P self =
           Inr \<lparr> index = [0..<length (exploded_rows ''frequencies'' self)],
                 cols = map (\<lambda>c. (c, map (index_cell P c) (exploded_rows ''frequencies'' self)))
                          (index_columns self) \<rparr>"
proof -
  let ?rows = "exploded_rows ''frequencies'' self"
  let ?F = "''frequencies''"
  have t0: "tabulates (DataFrame self) self (\<lambda>c r. field r c)"
    by (rule tabulates_DataFrame)
  have k0: "?F \<in> set (columns (DataFrame self))"
    using key .
  let ?g1 = "\<lambda>c (p :: (string \<times> 'n val) list \<times> 'n val). if c = ?F then snd p else field (fst p) c"
  obtain d1 where d1: "explode (DataFrame self) ?F = Inr d1"
    and c1: "columns d1 = columns (DataFrame self)"
    and t1: "tabulates d1 ?rows ?g1"
    using explode_tabulates[OF t0 k0] unfolding exploded_rows_def by blast
  have k1: "?F \<in> set (columns d1)" using k0 c1 by simp
  let ?g2 = "\<lambda>c p. if c = ''frequency'' then item ''frequency'' (?g1 ?F p) else ?g1 c p"
  obtain d2 where d2: "assign_expand d1 ''frequency'' ''frequency'' ?F = Inr d2"
    and c2: "columns d2 = (if ''frequency'' \<in> set (columns d1) then columns d1 else columns d1 @ [''frequency''])"
    and t2: "tabulates d2 ?rows ?g2"
    using assign_expand_tabulates[OF t1 k1, of "''frequency''" "''frequency''"] by blast
  have k2: "?F \<in> set (columns d2)" using k1 c2 by simp
  let ?g3 = "\<lambda>c p. if c = ''min_time'' then item ''min_time'' (?g2 ?F p) else ?g2 c p"
  obtain d3 where d3: "assign_expand d2 ''min_time'' ''min_time'' ?F = Inr d3"
    and c3: "columns d3 = (if ''min_time'' \<in> set (columns d2) then columns d2 else columns d2 @ [''min_time''])"
    and t3: "tabulates d3 ?rows ?g3"
    using assign_expand_tabulates[OF t2 k2, of "''min_time''" "''min_time''"] by blast
  have k3: "?F \<in> set (columns d3)" using k2 c3 by simp
  let ?g4 = "\<lambda>c p. if c = ''max_time'' then item ''max_time'' (?g3 ?F p) else ?g3 c p"
  obtain d4 where d4: "assign_expand d3 ''max_time'' ''max_time'' ?F = Inr d4"
    and c4: "columns d4 = (if ''max_time'' \<in> set (columns d3) then columns d3 else columns d3 @ [''max_time''])"
    and t4: "tabulates d4 ?rows ?g4"
    using assign_expand_tabulates[OF t3 k3, of "''max_time''" "''max_time''"] by blast
  have k4: "?F \<in> set (columns d4)" using k3 c4 by simp
  have t4r: "tabulates (reset_index d4) ?rows ?g4" using t4 by (rule reset_index_tabulates)
  have i4: "index (reset_index d4) = [0..<length ?rows]"
    using t4 by (rule index_reset_index_tabulates)
  obtain d5 where d5: "drop_df (reset_index d4) [?F] = Inr d5"
    and i5: "index d5 = index (reset_index d4)"
    and c5: "columns d5 = filter (\<lambda>c. c \<notin> set [?F]) (columns (reset_index d4))"
    and t5: "tabulates d5 ?rows ?g4"
    using drop_df_tabulates[OF t4r, of "[?F]"] k4 by auto
  have set4: "set (columns d4) = set (columns (DataFrame self)) \<union> {''frequency'', ''min_time'', ''max_time''}"
    using c1 c2 c3 c4 by (auto split: if_splits)
  have set5: "set (columns d5) = set (columns (DataFrame self)) - {?F} \<union> {''frequency'', ''min_time'', ''max_time''}"
    using c5 set4 by auto
  have ok: "converts P (?g4 c p)" if "c \<in> set (columns d5)" "time_like c" "p \<in> set ?rows" for c p
  proof -
    from that(3) have fst_in: "fst p \<in> set self"
      by (auto simp: exploded_rows_def)
    consider "c = ''max_time''" | "c = ''min_time''" | "c \<noteq> ''max_time''" "c \<noteq> ''min_time''"
      by blast
    then show ?thesis
    proof cases
      case 1
      then show ?thesis using ent that(3) by simp
    next
      case 2
      then show ?thesis using ent that(3) by simp
    next
      case 3
      from that(1) have m: "c \<in> set (columns (DataFrame self)) - {?F}
                                \<union> {''frequency'', ''min_time'', ''max_time''}"
        by (simp only: set5)
      have nf: "c \<noteq> ''frequency''" using that(2) by auto
      from m 3 nf have "c \<in> set (columns (DataFrame self)) \<and> c \<noteq> ?F" by simp
      with 3 nf own that(2) fst_in show ?thesis by simp
    qed
  qed
  obtain df where df: "convert_catalog_dtypes P d5 = Inr df"
    and i6: "index df = index d5" and c6: "columns df = columns d5"
    and t6: "tabulates df ?rows (\<lambda>c x. if time_like c then coerce P (?g4 c x) else ?g4 c x)"
    using convert_catalog_dtypes_tabulates[OF t5, of P] ok by blast
  have t7: "tabulates df ?rows (index_cell P)"
  proof (rule tabulates_cong[OF t6])
    fix c p assume "c \<in> set (columns df)" "p \<in> set ?rows"
    then have "c \<noteq> ?F" using c6 set5 by auto
    then show "(if time_like c then coerce P (?g4 c p) else ?g4 c p) = index_cell P c p"
      by (simp add: index_cell_def)
  qed
  have run: "CatalogIndexesData_to_dataframe P self = Inr df"
    by (simp add: CatalogIndexesData_to_dataframe_def frequencies_chain_def d1 d2 d3 d4 d5 df)
  have idx: "index df = [0..<length ?rows]" using i6 i5 i4 by simp
  have "columns d4 = with_label ''max_time'' (with_label ''min_time'' (with_label ''frequency''
          (columns (DataFrame self))))"
    by (simp only: c4 c3 c2 c1 with_label_def)
  then have cdf: "columns df = index_columns self"
    by (simp add: c6 c5 index_columns_def)
  have "cols df = map (\<lambda>c. (c, map (index_cell P c) ?rows)) (columns df)"
    using t7 by (simp add: tabulates_def)
  then have "cols df = map (\<lambda>c. (c, map (index_cell P c) ?rows)) (index_columns self)"
    by (simp only: cdf)
  with idx have "df = \<lparr>index = [0..<length ?rows],
      cols = map (\<lambda>c. (c, map (index_cell P c) ?rows)) (index_columns self)\<rparr>"
    by (rule dataframe_eqI)
  with run show ?thesis by simp
qed

lemma indexes_no_key:
  assumes "''frequencies'' \<notin> set (columns (DataFrame self))"
  shows "CatalogIndexesData_to_dataframe P self = Inl KeyError"
  using assms
  by (simp add: CatalogIndexesData_to_dataframe_def frequencies_chain_def explode_missing
      distinct_columns_DataFrame)

lemma exploded_rows_single_list:
  "map_of r ''frequencies'' = Some (Lst fs) \<Longrightarrow>
   exploded_rows ''frequencies'' [r] = (if fs = [] then [(r, NA)] else map (Pair r) fs)"
  by (simp add: exploded_rows_def field_def explode_cell_def)

lemma exploded_rows_append:
  "exploded_rows k (xs @ ys) = exploded_rows k xs @ exploded_rows k ys"
  by (simp add: exploded_rows_def)

lemma exploded_rows_missing:
  "map_of r k = None \<Longrightarrow> exploded_rows k [r] = [(r, NA)]"
  by (simp add: exploded_rows_def field_def explode_cell_def)

lemma distinct_index_columns: "distinct (index_columns self)"
  by (simp add: index_columns_def with_label_def distinct_columns_DataFrame)

lemma tabulates_frame:
  "distinct cs \<Longrightarrow>
   tabulates \<lparr>index = [0..<length xs], cols = map (\<lambda>c. (c, map (g c) xs)) cs\<rparr> xs g"
  by (simp add: tabulates_def columns_def comp_def)

lemma columns_frame: "columns \<lparr>index = i, cols = map (\<lambda>c. (c, f c)) cs\<rparr> = cs"
  by (simp add: columns_def comp_def)

text \<open>
  C1, as amended.  \<open>CatalogIndexesData.to_dataframe\<close> raises \<open>KeyError\<close> when no record
  has the key \<open>frequencies\<close> (in particular on the empty list).  When some record has
  it and \<open>_convert_utc\<close> returns on the time-like fields involved (the \<open>min_time\<close> and
  \<open>max_time\<close> of the entries, and the records' own time-like fields other than
  \<open>min_time\<close> and \<open>max_time\<close>), the call returns a frame with one row, labelled
  \<open>0, 1, ...\<close>, per pair of a record and an entry of its \<open>frequencies\<close>, in order, where
  the entries of a record are the elements of its list, or a single absent entry when
  the list is empty or the key is missing.  In the row of a record and an entry,
  \<open>frequency\<close> is the entry's field, and \<open>min_time\<close> and \<open>max_time\<close> are what
  \<open>_convert_utc\<close> makes of the entry's fields (all absent when the field is missing or
  the entry is no dictionary).  There is no \<open>frequencies\<close> column.  The records are
  those whose numbers are of the type \<open>safe_int\<close>.
\<close>

theorem CatalogIndexesData_to_dataframe_rows:
  "((\<forall>r \<in> set (self :: safe_int records). ''frequencies'' \<notin> fst ` set r) \<longrightarrow>
      CatalogIndexesData_to_dataframe P self = Inl KeyError) \<and>
   ((\<exists>r \<in> set self. ''frequencies'' \<in> fst ` set r) \<and>
    (\<forall>c \<in> set (columns (DataFrame self)).
        time_like c \<and> c \<noteq> ''min_time'' \<and> c \<noteq> ''max_time'' \<longrightarrow>
        (\<forall>r \<in> set self. converts P (field r c))) \<and>
    (\<forall>p \<in> set (exploded_rows ''frequencies'' self).
        converts P (item ''min_time'' (snd p)) \<and> converts P (item ''max_time'' (snd p))) \<longrightarrow>
      (\<exists>df. CatalogIndexesData_to_dataframe P self = Inr df \<and>
         index df = [0..<length (exploded_rows ''frequencies'' self)] \<and>
         ''frequencies'' \<notin> set (columns df) \<and>
         getitem df ''frequency'' =
           Series (map (\<lambda>p. item ''frequency'' (snd p)) (exploded_rows ''frequencies'' self)) \<and>
         getitem df ''min_time'' =
           Series (map (\<lambda>p. coerce P (item ''min_time'' (snd p)))
                     (exploded_rows ''frequencies'' self)) \<and>
         getitem df ''max_time'' =
           Series (map (\<lambda>p. coerce P (item ''max_time'' (snd p)))
                     (exploded_rows ''frequencies'' self)))) \<and>
   (\<forall>(r :: (string \<times> safe_int val) list) fs. map_of r ''frequencies'' = Some (Lst fs) \<longrightarrow>
      exploded_rows ''frequencies'' [r] = (if fs = [] then [(r, NA)] else map (Pair r) fs)) \<and>
   (\<forall>r :: (string \<times> safe_int val) list.
      map_of r ''frequencies'' = None \<longrightarrow> exploded_rows ''frequencies'' [r] = [(r, NA)]) \<and>
   (\<forall>xs ys :: safe_int records. exploded_rows ''frequencies'' (xs @ ys)
      = exploded_rows ''frequencies'' xs @ exploded_rows ''frequencies'' ys)"
proof (intro conjI impI allI)
  assume "\<forall>r \<in> set self. ''frequencies'' \<notin> fst ` set r"
  then have "''frequencies'' \<notin> set (columns (DataFrame self))"
    by (simp add: set_columns_DataFrame)
  then show "CatalogIndexesData_to_dataframe P self = Inl KeyError"
    by (rule indexes_no_key)
next
  let ?rows = "exploded_rows ''frequencies'' self"
  let ?df = "\<lparr> index = [0..<length ?rows],
              cols = map (\<lambda>c. (c, map (index_cell P c) ?rows)) (index_columns self) \<rparr>"
  assume a: "(\<exists>r \<in> set self. ''frequencies'' \<in> fst ` set r) \<and>
    (\<forall>c \<in> set (columns (DataFrame self)).
        time_like c \<and> c \<noteq> ''min_time'' \<and> c \<noteq> ''max_time'' \<longrightarrow>
        (\<forall>r \<in> set self. converts P (field r c))) \<and>
    (\<forall>p \<in> set (exploded_rows ''frequencies'' self).
        converts P (item ''min_time'' (snd p)) \<and> converts P (item ''max_time'' (snd p)))"
  then have "''frequencies'' \<in> set (columns (DataFrame self))"
    by (simp add: set_columns_DataFrame)
  with a have run: "CatalogIndexesData_to_dataframe P self = Inr ?df"
    by (intro indexes_rows) simp_all
  have t: "tabulates ?df ?rows (index_cell P)"
    using distinct_index_columns by (rule tabulates_frame)
  have cs: "columns ?df = index_columns self"
    by (rule columns_frame)
  have i: "index ?df = [0..<length ?rows]" by simp
  have nf: "''frequencies'' \<notin> set (columns ?df)"
    unfolding cs by (simp add: index_columns_def)
  have "''frequency'' \<in> set (columns ?df)"
    unfolding cs by (simp add: index_columns_def with_label_def)
  then have "getitem ?df ''frequency'' = Series (map (index_cell P ''frequency'') ?rows)"
    by (rule getitem_tabulates[OF t])
  then have g1: "getitem ?df ''frequency'' = Series (map (\<lambda>p. item ''frequency'' (snd p)) ?rows)"
    by (simp add: index_cell_def)
  have "''min_time'' \<in> set (columns ?df)"
    unfolding cs by (simp add: index_columns_def with_label_def)
  then have "getitem ?df ''min_time'' = Series (map (index_cell P ''min_time'') ?rows)"
    by (rule getitem_tabulates[OF t])
  then have g2: "getitem ?df ''min_time'' =
      Series (map (\<lambda>p. coerce P (item ''min_time'' (snd p))) ?rows)"
    by (simp add: index_cell_def)
  have "''max_time'' \<in> set (columns ?df)"
    unfolding cs by (simp add: index_columns_def with_label_def)
  then have "getitem ?df ''max_time'' = Series (map (index_cell P ''max_time'') ?rows)"
    by (rule getitem_tabulates[OF t])
  then have g3: "getitem ?df ''max_time'' =
      Series (map (\<lambda>p. coerce P (item ''max_time'' (snd p))) ?rows)"
    by (simp add: index_cell_def)
  from run i nf g1 g2 g3
  show "\<exists>df. CatalogIndexesData_to_dataframe P self = Inr df \<and>
         index df = [0..<length ?rows] \<and>
         ''frequencies'' \<notin> set (columns df) \<and>
         getitem df ''frequency'' = Series (map (\<lambda>p. item ''frequency'' (snd p)) ?rows) \<and>
         getitem df ''min_time'' = Series (map (\<lambda>p. coerce P (item ''min_time'' (snd p))) ?rows) \<and>
         getitem df ''max_time'' = Series (map (\<lambda>p. coerce P (item ''max_time'' (snd p))) ?rows)"
    by (intro exI[of _ ?df] conjI)
next
  fix r :: "(string \<times> safe_int val) list" and fs
  assume "map_of r ''frequencies'' = Some (Lst fs)"
  then show "exploded_rows ''frequencies'' [r] = (if fs = [] then [(r, NA)] else map (Pair r) fs)"
    by (rule exploded_rows_single_list)
next
  fix r :: "(string \<times> safe_int val) list" assume "map_of r ''frequencies'' = None"
  then show "exploded_rows ''frequencies'' [r] = [(r, NA)]"
    by (rule exploded_rows_missing)
next
  fix xs ys :: "safe_int records"
  show "exploded_rows ''frequencies'' (xs @ ys)
      = exploded_rows ''frequencies'' xs @ exploded_rows ''frequencies'' ys"
    by (rule exploded_rows_append)
qed

theorem CatalogIndexesData_to_dataframe_rows_witness:
  "\<exists>df. CatalogIndexesData_to_dataframe (date_isoparse :: safe_int parser)
     [[(''index'', Str ''X''), (''min_time'', Str ''unknown''),
       (''frequencies'', Lst [Dict [(''frequency'', Str ''1d''), (''min_time'', Str ''2020-01-01'')],
                              Dict [(''frequency'', Str ''1h''), (''max_time'', Str ''2021-06-30'')]])],
      [(''index'', Str ''Y''), (''frequencies'', Lst [])],
      [(''index'', Str ''Z'')]] = Inr df \<and>
     index df = [0, 1, 2, 3] \<and>
     ''frequencies'' \<notin> set (columns df) \<and>
     getitem df ''frequency'' = Series [Str ''1d'', Str ''1h'', NA, NA] \<and>
     getitem df ''min_time'' = Series [Datetime [2020, 1, 1], NA, NA, NA] \<and>
     getitem df ''max_time'' = Series [NA, Datetime [2021, 6, 30], NA, NA]"
proof -
  let ?self = "[[(''index'', Str ''X'' :: safe_int val), (''min_time'', Str ''unknown''),
       (''frequencies'', Lst [Dict [(''frequency'', Str ''1d''), (''min_time'', Str ''2020-01-01'')],
                              Dict [(''frequency'', Str ''1h''), (''max_time'', Str ''2021-06-30'')]])],
      [(''index'', Str ''Y''), (''frequencies'', Lst [])],
      [(''index'', Str ''Z'')]]"
  have rows: "exploded_rows ''frequencies'' ?self =
     [(?self ! 0, Dict [(''frequency'', Str ''1d''), (''min_time'', Str ''2020-01-01'')]),
      (?self ! 0, Dict [(''frequency'', Str ''1h''), (''max_time'', Str ''2021-06-30'')]),
      (?self ! 1, NA), (?self ! 2, NA)]"
    by (simp add: exploded_rows_def field_def explode_cell_def)
  have cs: "columns (DataFrame ?self) = [''index'', ''min_time'', ''frequencies'']"
    by (simp add: DataFrame_def columns_def)
  have pre: "(\<exists>r \<in> set ?self. ''frequencies'' \<in> fst ` set r) \<and>
    (\<forall>c \<in> set (columns (DataFrame ?self)).
        time_like c \<and> c \<noteq> ''min_time'' \<and> c \<noteq> ''max_time'' \<longrightarrow>
        (\<forall>r \<in> set ?self. converts date_isoparse (field r c))) \<and>
    (\<forall>p \<in> set (exploded_rows ''frequencies'' ?self).
        converts date_isoparse (item ''min_time'' (snd p)) \<and>
        converts date_isoparse (item ''max_time'' (snd p)))"
    unfolding rows cs
    by (simp add: time_like_def endswith_def item_def converts_def convert_utc_def
        date_isoparse_simps)
  show ?thesis
    using CatalogIndexesData_to_dataframe_rows[of ?self date_isoparse, THEN conjunct2,
        THEN conjunct1, THEN mp, OF pre]
    unfolding rows
    by (simp add: item_def coerce_def convert_utc_def date_isoparse_simps
        numeral_2_eq_2 numeral_3_eq_3)
qed

theorem CatalogIndexesData_empty_frequencies_counterexample:
  "CatalogIndexesData_to_dataframe (date_isoparse :: safe_int parser)
     [[(''index'', Str ''X''), (''frequencies'', Lst [])]]
     = Inr \<lparr>index = [0],
            cols = [(''index'', [Str ''X'']), (''frequency'', [NA]),
                    (''min_time'', [NA]), (''max_time'', [NA])]\<rparr> \<and>
   CatalogIndexesData_to_dataframe (date_isoparse :: safe_int parser) [] = Inl KeyError"
proof -
  let ?self = "[[(''index'', Str ''X'' :: safe_int val), (''frequencies'', Lst [])]]"
  have rows: "exploded_rows ''frequencies'' ?self = [(?self ! 0, NA)]"
    by (simp add: exploded_rows_def field_def explode_cell_def)
  have cs: "columns (DataFrame ?self) = [''index'', ''frequencies'']"
    by (simp add: DataFrame_def columns_def)
  have ics: "index_columns ?self = [''index'', ''frequency'', ''min_time'', ''max_time'']"
    by (simp add: index_columns_def cs with_label_def)
  have 1: "CatalogIndexesData_to_dataframe (date_isoparse :: safe_int parser) ?self
     = Inr \<lparr>index = [0],
            cols = [(''index'', [Str ''X'']), (''frequency'', [NA]),
                    (''min_time'', [NA]), (''max_time'', [NA])]\<rparr>"
    using indexes_rows[of ?self date_isoparse]
    unfolding rows ics cs
    by (simp add: index_cell_def time_like_def endswith_def item_def field_def coerce_def
        converts_def convert_utc_def date_isoparse_simps)
  have 2: "CatalogIndexesData_to_dataframe (date_isoparse :: safe_int parser) [] = Inl KeyError"
    by (rule indexes_no_key) (simp add: DataFrame_def columns_def)
  from 1 2 show ?thesis by (intro conjI)
qed

section \<open>\<open>CatalogAssetsData.to_dataframe\<close>, markets\<close>

lemma fillna_tabulates:
  assumes t: "tabulates df xs g"
  shows "tabulates (fillna df k v) xs (\<lambda>c x. if c = k \<and> g c x = NA then v else g c x)"
    and "columns (fillna df k v) = columns df"
proof -
  have d: "distinct (columns df)" and len: "length (index df) = length xs"
    and cs: "cols df = map (\<lambda>c. (c, map (g c) xs)) (columns df)"
    using t by (simp_all add: tabulates_def)
  show c: "columns (fillna df k v) = columns df"
    by (simp add: fillna_def columns_def comp_def)
  have "cols (fillna df k v) = map (\<lambda>p. (fst p, if fst p = k then map (\<lambda>x. if x = NA then v else x) (snd p)
                                 else snd p)) (map (\<lambda>c. (c, map (g c) xs)) (columns df))"
    using cs by (simp add: fillna_def)
  also have "\<dots> = map (\<lambda>c. (c, map (\<lambda>x. if c = k \<and> g c x = NA then v else g c x) xs)) (columns df)"
    by (simp add: comp_def)
  finally show "tabulates (fillna df k v) xs (\<lambda>c x. if c = k \<and> g c x = NA then v else g c x)"
    using d len c by (simp add: tabulates_def fillna_def)
qed

lemma columns_rename:
  "columns (rename df old new) = map (\<lambda>c. if c = old then new else c) (columns df)"
  by (simp add: rename_def columns_def comp_def)

lemma distinct_map_rename:
  "distinct cs \<Longrightarrow> new \<notin> set cs \<Longrightarrow> distinct (map (\<lambda>c. if c = old then new else c) cs)"
  by (induction cs) auto

lemma rename_tabulates:
  assumes t: "tabulates df xs g" and new: "new \<notin> set (columns df)"
  shows "tabulates (rename df old new) xs (\<lambda>c x. if c = new then g old x else g c x)"
proof -
  have d: "distinct (columns df)" and len: "length (index df) = length xs"
    and cs: "cols df = map (\<lambda>c. (c, map (g c) xs)) (columns df)"
    using t by (simp_all add: tabulates_def)
  let ?ren = "\<lambda>c. if c = old then new else c"
  let ?g = "\<lambda>c x. if c = new then g old x else g c x"
  have "cols (rename df old new) = map (\<lambda>p. (?ren (fst p), snd p)) (map (\<lambda>c. (c, map (g c) xs)) (columns df))"
    using cs by (simp add: rename_def)
  also have "\<dots> = map (\<lambda>c. (?ren c, map (g c) xs)) (columns df)"
    by (simp add: comp_def)
  also have "\<dots> = map (\<lambda>c. (?ren c, map (?g (?ren c)) xs)) (columns df)"
    using new by (intro map_cong) auto
  also have "\<dots> = map (\<lambda>c. (c, map (?g c) xs)) (map ?ren (columns df))"
    by (simp add: comp_def)
  finally have "cols (rename df old new) = map (\<lambda>c. (c, map (?g c) xs)) (columns (rename df old new))"
    by (simp only: columns_rename)
  moreover have "distinct (columns (rename df old new))"
    using d new by (simp add: columns_rename distinct_map_rename)
  moreover have "length (index (rename df old new)) = length xs"
    using len by (simp add: rename_def)
  ultimately show ?thesis by (simp add: tabulates_def)
qed

lemma split_first_before_dash:
  "m = NA \<or> (\<exists>s. m = Str s) \<Longrightarrow> split_first (market_of m) = Inr (before_dash (market_of m))"
  by (auto simp: split_first_def market_of_def before_dash_def)

lemma not_time_like_market [simp]:
  "\<not> time_like ''market''" "\<not> time_like ''exchange''" "\<not> time_like ''markets''"
  by (simp_all add: time_like_def endswith_def)

lemma assets_markets_rows:
  fixes self :: "'n records"
  assumes mk: "''markets'' \<in> set (columns (DataFrame self))"
    and nm: "''market'' \<notin> set (columns (DataFrame self))"
    and ex: "''exchanges'' \<in> set (columns (DataFrame self))"
    and str: "\<forall>p \<in> set (exploded_rows ''markets'' self). snd p = NA \<or> (\<exists>s. snd p = Str s)"
    and own: "\<forall>c \<in> set (columns (DataFrame self)). time_like c \<longrightarrow>
                (\<forall>r \<in> set self. converts P (field r c))"
  shows "bnd (assets_markets (DataFrame self)) (convert_catalog_dtypes P) =
           Inr \<lparr> index = [0..<length (exploded_rows ''markets'' self)],
                 cols = map (\<lambda>c. (c, map (market_cell P c) (exploded_rows ''markets'' self)))
                          (market_columns self) \<rparr>"
proof -
  let ?rows = "exploded_rows ''markets'' self"
  let ?M = "''markets''"
  let ?ren = "\<lambda>c. if c = ?M then ''market'' else c"
  have t0: "tabulates (DataFrame self) self (\<lambda>c r. field r c)"
    by (rule tabulates_DataFrame)
  let ?g1 = "\<lambda>c (p :: (string \<times> 'n val) list \<times> 'n val). if c = ?M then snd p else field (fst p) c"
  obtain d1 where d1: "explode (DataFrame self) ?M = Inr d1"
    and c1: "columns d1 = columns (DataFrame self)"
    and t1: "tabulates d1 ?rows ?g1"
    using explode_tabulates[OF t0 mk] unfolding exploded_rows_def by blast
  let ?g2 = "\<lambda>c p. if c = ?M \<and> ?g1 c p = NA then Str [] else ?g1 c p"
  let ?d2 = "fillna d1 ?M (Str [])"
  have t2: "tabulates ?d2 ?rows ?g2" and c2: "columns ?d2 = columns d1"
    using fillna_tabulates[OF t1, of ?M "Str []"] by simp_all
  let ?d3 = "rename ?d2 ?M ''market''"
  let ?g3 = "\<lambda>c p. if c = ''market'' then ?g2 ?M p else ?g2 c p"
  have nm2: "''market'' \<notin> set (columns ?d2)" using nm c1 c2 by simp
  have t3: "tabulates ?d3 ?rows ?g3"
    using rename_tabulates[OF t2 nm2, of ?M] .
  have c3: "columns ?d3 = map ?ren (columns (DataFrame self))"
    by (simp only: columns_rename c2 c1)
  have m3: "''market'' \<in> set (columns ?d3)"
    unfolding c3 using mk by (simp add: image_iff)
  have g3: "getitem ?d3 ''market'' = Series (map (?g3 ''market'') ?rows)"
    using t3 m3 by (rule getitem_tabulates)
  have g3m: "?g3 ''market'' p = market_of (snd p)" for p
    by (simp add: market_of_def)
  have sp: "map_exn split_first (map (?g3 ''market'') ?rows)
              = Inr (map before_dash (map (?g3 ''market'') ?rows))"
  proof (rule map_exn_map)
    fix x assume "x \<in> set (map (?g3 ''market'') ?rows)"
    then obtain p where p: "p \<in> set ?rows" and x: "x = market_of (snd p)"
      unfolding g3m by auto
    from p str have "snd p = NA \<or> (\<exists>s. snd p = Str s)" by blast
    then show "split_first x = Inr (before_dash x)"
      unfolding x by (rule split_first_before_dash)
  qed
  let ?h = "\<lambda>p. before_dash (market_of (snd p))"
  have hmap: "map before_dash (map (?g3 ''market'') ?rows) = map ?h ?rows"
    unfolding g3m by (simp add: comp_def)
  let ?d4 = "setitem ?d3 ''exchange'' (map ?h ?rows)"
  let ?g4 = "\<lambda>c p. if c = ''exchange'' then ?h p else ?g3 c p"
  have len3: "length (index ?d3) = length ?rows" using t3 by (simp add: tabulates_def)
  have a4: "assign ?d3 ''exchange'' (map ?h ?rows) = Inr ?d4"
    using len3 by (simp add: assign_def)
  have t4: "tabulates ?d4 ?rows ?g4"
    using t3 by (rule setitem_tabulates)
  have c4: "columns ?d4 = with_label ''exchange'' (map ?ren (columns (DataFrame self)))"
    by (simp only: columns_setitem c3 with_label_def)
  have e4: "''exchanges'' \<in> set (columns ?d4)"
  proof -
    have "?ren ''exchanges'' \<in> set (map ?ren (columns (DataFrame self)))"
      using ex by (simp only: set_map image_eqI)
    then have "''exchanges'' \<in> set (map ?ren (columns (DataFrame self)))" by simp
    then show ?thesis unfolding c4 by (simp add: with_label_def)
  qed
  obtain d5 where d5: "drop_df ?d4 [''exchanges''] = Inr d5"
    and i5: "index d5 = index ?d4"
    and c5: "columns d5 = filter (\<lambda>c. c \<notin> set [''exchanges'']) (columns ?d4)"
    and t5: "tabulates d5 ?rows ?g4"
    using drop_df_tabulates[OF t4, of "[''exchanges'']"] e4 by auto
  have c5': "columns d5 = market_columns self"
    by (simp add: c5 c4 market_columns_def)
  have t5r: "tabulates (reset_index d5) ?rows ?g4" using t5 by (rule reset_index_tabulates)
  have i5r: "index (reset_index d5) = [0..<length ?rows]"
    using t5 by (rule index_reset_index_tabulates)
  have am: "assets_markets (DataFrame self) = Inr (reset_index d5)"
    by (simp only: assets_markets_def d1 Let_def g3 sp hmap a4 d5 bnd_Inr lookup.case)
  have mem: "c = ''exchange'' \<or> c = ''market'' \<or> (c \<in> set (columns (DataFrame self)) \<and> c \<noteq> ?M)"
    if "c \<in> set (columns d5)" for c
  proof -
    from that have "c \<in> set (with_label ''exchange'' (map ?ren (columns (DataFrame self))))"
      by (simp add: c5 c4)
    then have "c = ''exchange'' \<or> c \<in> set (map ?ren (columns (DataFrame self)))"
      by (simp add: with_label_def split: if_splits)
    then show ?thesis by (auto split: if_splits)
  qed
  have ok: "converts P (?g4 c p)"
    if "c \<in> set (columns (reset_index d5))" "time_like c" "p \<in> set ?rows" for c p
  proof -
    from that(3) have fst_in: "fst p \<in> set self"
      by (auto simp: exploded_rows_def)
    from that(1) have "c = ''exchange'' \<or> c = ''market'' \<or> (c \<in> set (columns (DataFrame self)) \<and> c \<noteq> ?M)"
      using mem[of c] by simp
    with that(2) have cin: "c \<in> set (columns (DataFrame self))" and ne: "c \<noteq> ?M"
      "c \<noteq> ''exchange''" "c \<noteq> ''market''"
      by auto
    from own cin that(2) fst_in have "converts P (field (fst p) c)" by blast
    with ne show ?thesis by simp
  qed
  obtain df where df: "convert_catalog_dtypes P (reset_index d5) = Inr df"
    and i6: "index df = index (reset_index d5)" and c6: "columns df = columns (reset_index d5)"
    and t6: "tabulates df ?rows (\<lambda>c x. if time_like c then coerce P (?g4 c x) else ?g4 c x)"
    using convert_catalog_dtypes_tabulates[OF t5r, of P] ok by blast
  have t7: "tabulates df ?rows (market_cell P)"
  proof (rule tabulates_cong[OF t6])
    fix c p assume "c \<in> set (columns df)" "p \<in> set ?rows"
    then have "c = ''exchange'' \<or> c = ''market'' \<or> (c \<in> set (columns (DataFrame self)) \<and> c \<noteq> ?M)"
      using mem[of c] c6 by simp
    then have "c \<noteq> ?M" by auto
    then show "(if time_like c then coerce P (?g4 c p) else ?g4 c p) = market_cell P c p"
      by (simp add: market_cell_def market_of_def)
  qed
  have cdf: "columns df = market_columns self" using c6 c5' by simp
  have "cols df = map (\<lambda>c. (c, map (market_cell P c) ?rows)) (columns df)"
    using t7 by (simp add: tabulates_def)
  then have "cols df = map (\<lambda>c. (c, map (market_cell P c) ?rows)) (market_columns self)"
    by (simp only: cdf)
  moreover have "index df = [0..<length ?rows]" using i6 i5r by simp
  ultimately have "df = \<lparr>index = [0..<length ?rows],
      cols = map (\<lambda>c. (c, map (market_cell P c) ?rows)) (market_columns self)\<rparr>"
    by (intro dataframe_eqI)
  then show ?thesis using am df by simp
qed

lemma assets_markets_no_key:
  assumes "''markets'' \<notin> set (columns (DataFrame self))"
  shows "assets_markets (DataFrame self) = Inl KeyError"
  using assms by (simp add: assets_markets_def explode_missing distinct_columns_DataFrame)

lemma exploded_rows_single:
  "exploded_rows k [r] = map (Pair r) (explode_cell (field r k))"
  by (simp add: exploded_rows_def)

lemma markets_not_in_market_columns: "''markets'' \<notin> set (market_columns self)"
  by (auto simp: market_columns_def with_label_def split: if_splits)

lemma distinct_market_columns:
  "''market'' \<notin> set (columns (DataFrame self)) \<Longrightarrow> distinct (market_columns self)"
  by (simp add: market_columns_def with_label_def distinct_columns_DataFrame
      distinct_map_rename)

text \<open>
  C6, as amended.  With \<open>secondary_level = "markets"\<close>,
  \<open>CatalogAssetsData.to_dataframe\<close> raises \<open>KeyError\<close> when no record has the key
  \<open>markets\<close>.  When some record has the key \<open>markets\<close>, some record has the key
  \<open>exchanges\<close>, none has a key \<open>market\<close>, every market entry is a string or absent
  and \<open>_convert_utc\<close> returns on the records' time-like fields, the call returns a
  frame with one row, labelled \<open>0, 1, ...\<close>, per pair of a record and an entry of its
  \<open>markets\<close>, in order, where the entries are the elements of the list, or one absent
  entry when the list is empty or the key is missing.  In each row \<open>market\<close> is the
  entry, the empty string for an absent one, and \<open>exchange\<close> is the part of \<open>market\<close>
  before the first \<open>-\<close>.  The columns \<open>exchanges\<close> and \<open>markets\<close> are not in the
  result.  The records are those whose numbers are of the type \<open>safe_int\<close>.
\<close>

theorem CatalogAssetsData_to_dataframe_markets:
  "((\<forall>r \<in> set (self :: safe_int records). ''markets'' \<notin> fst ` set r) \<longrightarrow>
      CatalogAssetsData_to_dataframe apply_Series merge P self (Some ''markets'')
        = Inl (Raised KeyError)) \<and>
   ((\<exists>r \<in> set self. ''markets'' \<in> fst ` set r) \<and>
    (\<exists>r \<in> set self. ''exchanges'' \<in> fst ` set r) \<and>
    (\<forall>r \<in> set self. ''market'' \<notin> fst ` set r) \<and>
    (\<forall>p \<in> set (exploded_rows ''markets'' self). snd p = NA \<or> (\<exists>s. snd p = Str s)) \<and>
    (\<forall>c \<in> set (columns (DataFrame self)). time_like c \<longrightarrow>
        (\<forall>r \<in> set self. converts P (field r c))) \<longrightarrow>
      (\<exists>df. CatalogAssetsData_to_dataframe apply_Series merge P self (Some ''markets'') = Inr df \<and>
         index df = [0..<length (exploded_rows ''markets'' self)] \<and>
         ''exchanges'' \<notin> set (columns df) \<and>
         ''markets'' \<notin> set (columns df) \<and>
         getitem df ''market'' =
           Series (map (\<lambda>p. market_of (snd p)) (exploded_rows ''markets'' self)) \<and>
         getitem df ''exchange'' =
           Series (map (\<lambda>p. before_dash (market_of (snd p)))
                     (exploded_rows ''markets'' self)))) \<and>
   (\<forall>(r :: (string \<times> safe_int val) list) ms. map_of r ''markets'' = Some (Lst ms) \<longrightarrow>
      exploded_rows ''markets'' [r] = (if ms = [] then [(r, NA)] else map (Pair r) ms)) \<and>
   (\<forall>r :: (string \<times> safe_int val) list.
      map_of r ''markets'' = None \<longrightarrow> exploded_rows ''markets'' [r] = [(r, NA)]) \<and>
   (\<forall>xs ys :: safe_int records. exploded_rows ''markets'' (xs @ ys)
      = exploded_rows ''markets'' xs @ exploded_rows ''markets'' ys) \<and>
   (\<forall>m :: safe_int val. market_of m = (if m = NA then Str [] else m)) \<and>
   (\<forall>s. before_dash (Str s :: safe_int val) = Str (takeWhile (\<lambda>ch. ch \<noteq> CHR ''-'') s))"
proof (intro conjI impI allI)
  assume "\<forall>r \<in> set self. ''markets'' \<notin> fst ` set r"
  then have "''markets'' \<notin> set (columns (DataFrame self))"
    by (simp add: set_columns_DataFrame)
  then have "assets_markets (DataFrame self) = Inl KeyError"
    by (rule assets_markets_no_key)
  then show "CatalogAssetsData_to_dataframe apply_Series merge P self (Some ''markets'')
        = Inl (Raised KeyError)"
    by (simp add: CatalogAssetsData_to_dataframe_def Let_def)
next
  let ?rows = "exploded_rows ''markets'' self"
  let ?df = "\<lparr> index = [0..<length ?rows],
              cols = map (\<lambda>c. (c, map (market_cell P c) ?rows)) (market_columns self) \<rparr>"
  assume a: "(\<exists>r \<in> set self. ''markets'' \<in> fst ` set r) \<and>
    (\<exists>r \<in> set self. ''exchanges'' \<in> fst ` set r) \<and>
    (\<forall>r \<in> set self. ''market'' \<notin> fst ` set r) \<and>
    (\<forall>p \<in> set (exploded_rows ''markets'' self). snd p = NA \<or> (\<exists>s. snd p = Str s)) \<and>
    (\<forall>c \<in> set (columns (DataFrame self)). time_like c \<longrightarrow>
        (\<forall>r \<in> set self. converts P (field r c)))"
  then have mk: "''markets'' \<in> set (columns (DataFrame self))"
    and ex: "''exchanges'' \<in> set (columns (DataFrame self))"
    and nm: "''market'' \<notin> set (columns (DataFrame self))"
    by (simp_all add: set_columns_DataFrame)
  have "bnd (assets_markets (DataFrame self)) (convert_catalog_dtypes P) = Inr ?df"
    using mk nm ex a by (intro assets_markets_rows) simp_all
  then have run: "CatalogAssetsData_to_dataframe apply_Series merge P self (Some ''markets'')
      = Inr ?df"
    by (cases "assets_markets (DataFrame self)")
       (simp_all add: CatalogAssetsData_to_dataframe_def Let_def)
  have t: "tabulates ?df ?rows (market_cell P)"
    using distinct_market_columns[OF nm] by (rule tabulates_frame)
  have cs: "columns ?df = market_columns self"
    by (rule columns_frame)
  have i: "index ?df = [0..<length ?rows]" by simp
  have n1: "''exchanges'' \<notin> set (columns ?df)"
    unfolding cs by (simp add: market_columns_def)
  have n2: "''markets'' \<notin> set (columns ?df)"
    unfolding cs by (rule markets_not_in_market_columns)
  have "''market'' \<in> set (columns ?df)"
    unfolding cs using mk by (simp add: market_columns_def with_label_def image_iff)
  then have "getitem ?df ''market'' = Series (map (market_cell P ''market'') ?rows)"
    by (rule getitem_tabulates[OF t])
  then have g1: "getitem ?df ''market'' = Series (map (\<lambda>p. market_of (snd p)) ?rows)"
    by (simp add: market_cell_def)
  have "''exchange'' \<in> set (columns ?df)"
    unfolding cs by (simp add: market_columns_def with_label_def)
  then have "getitem ?df ''exchange'' = Series (map (market_cell P ''exchange'') ?rows)"
    by (rule getitem_tabulates[OF t])
  then have g2: "getitem ?df ''exchange'' =
      Series (map (\<lambda>p. before_dash (market_of (snd p))) ?rows)"
    by (simp add: market_cell_def)
  from run i n1 n2 g1 g2
  show "\<exists>df. CatalogAssetsData_to_dataframe apply_Series merge P self (Some ''markets'') = Inr df \<and>
         index df = [0..<length ?rows] \<and>
         ''exchanges'' \<notin> set (columns df) \<and>
         ''markets'' \<notin> set (columns df) \<and>
         getitem df ''market'' = Series (map (\<lambda>p. market_of (snd p)) ?rows) \<and>
         getitem df ''exchange'' = Series (map (\<lambda>p. before_dash (market_of (snd p))) ?rows)"
    by (intro exI[of _ ?df] conjI)
next
  fix r :: "(string \<times> safe_int val) list" and ms
  assume "map_of r ''markets'' = Some (Lst ms)"
  then show "exploded_rows ''markets'' [r] = (if ms = [] then [(r, NA)] else map (Pair r) ms)"
    by (simp add: exploded_rows_single field_def explode_cell_def)
next
  fix r :: "(string \<times> safe_int val) list" assume "map_of r ''markets'' = None"
  then show "exploded_rows ''markets'' [r] = [(r, NA)]"
    by (rule exploded_rows_missing)
next
  fix xs ys :: "safe_int records"
  show "exploded_rows ''markets'' (xs @ ys)
      = exploded_rows ''markets'' xs @ exploded_rows ''markets'' ys"
    by (rule exploded_rows_append)
next
  fix m :: "safe_int val"
  show "market_of m = (if m = NA then Str [] else m)"
    by (simp add: market_of_def)
next
  fix s
  show "before_dash (Str s :: safe_int val) = Str (takeWhile (\<lambda>ch. ch \<noteq> CHR ''-'') s)"
    by (simp add: before_dash_def)
qed

theorem CatalogAssetsData_to_dataframe_markets_witness:
  "\<exists>df. CatalogAssetsData_to_dataframe no_apply_Series no_merge
     (date_isoparse :: safe_int parser)
     [[(''asset'', Str ''btc''), (''exchanges'', Lst [Str ''kraken'']),
       (''markets'', Lst [Str ''kraken-btc-usd'', Str ''lmax-btc-eur''])],
      [(''asset'', Str ''xyz''), (''exchanges'', Lst []), (''markets'', Lst [])],
      [(''asset'', Str ''abc'')]]
     (Some ''markets'') = Inr df \<and>
     index df = [0, 1, 2, 3] \<and>
     ''exchanges'' \<notin> set (columns df) \<and>
     ''markets'' \<notin> set (columns df) \<and>
     getitem df ''market'' = Series [Str ''kraken-btc-usd'', Str ''lmax-btc-eur'', Str [], Str []] \<and>
     getitem df ''exchange'' = Series [Str ''kraken'', Str ''lmax'', Str [], Str []]"
proof -
  let ?self = "[[(''asset'', Str ''btc'' :: safe_int val), (''exchanges'', Lst [Str ''kraken'']),
       (''markets'', Lst [Str ''kraken-btc-usd'', Str ''lmax-btc-eur''])],
      [(''asset'', Str ''xyz''), (''exchanges'', Lst []), (''markets'', Lst [])],
      [(''asset'', Str ''abc'')]]"
  have rows: "exploded_rows ''markets'' ?self =
     [(?self ! 0, Str ''kraken-btc-usd''), (?self ! 0, Str ''lmax-btc-eur''),
      (?self ! 1, NA), (?self ! 2, NA)]"
    by (simp add: exploded_rows_def field_def explode_cell_def)
  have cs: "columns (DataFrame ?self) = [''asset'', ''exchanges'', ''markets'']"
    by (simp add: DataFrame_def columns_def)
  have pre: "(\<exists>r \<in> set ?self. ''markets'' \<in> fst ` set r) \<and>
    (\<exists>r \<in> set ?self. ''exchanges'' \<in> fst ` set r) \<and>
    (\<forall>r \<in> set ?self. ''market'' \<notin> fst ` set r) \<and>
    (\<forall>p \<in> set (exploded_rows ''markets'' ?self). snd p = NA \<or> (\<exists>s. snd p = Str s)) \<and>
    (\<forall>c \<in> set (columns (DataFrame ?self)). time_like c \<longrightarrow>
        (\<forall>r \<in> set ?self. converts date_isoparse (field r c)))"
    unfolding rows cs
    by (simp add: time_like_def endswith_def)
  show ?thesis
    using CatalogAssetsData_to_dataframe_markets[of ?self no_apply_Series no_merge date_isoparse,
        THEN conjunct2, THEN conjunct1, THEN mp, OF pre]
    unfolding rows
    by (simp add: market_of_def before_dash_def numeral_2_eq_2 numeral_3_eq_3)
qed

theorem CatalogAssetsData_missing_markets_counterexample:
  "CatalogAssetsData_to_dataframe no_apply_Series no_merge (date_isoparse :: safe_int parser)
     [[(''asset'', Str ''xyz''), (''exchanges'', Lst [])]] (Some ''markets'')
   = Inl (Raised KeyError)"
proof -
  let ?self = "[[(''asset'', Str ''xyz'' :: safe_int val), (''exchanges'', Lst [])]]"
  have "''markets'' \<notin> set (columns (DataFrame ?self))"
    by (simp add: DataFrame_def columns_def)
  then have "assets_markets (DataFrame ?self) = Inl KeyError"
    by (rule assets_markets_no_key)
  then show ?thesis
    by (simp add: CatalogAssetsData_to_dataframe_def Let_def)
qed

end
